theory Spec2Isabelle
  imports Complex_Main
begin

section \<open>Data model\<close>

text \<open>
  Monetary values are Python \<open>Decimal\<close>s; addition, subtraction, multiplication and
  comparison of decimals are exact, so they are modelled as rationals. Dates are day
  numbers, timestamps are tick numbers. Primary keys are natural numbers, and an object
  that has not been inserted yet has no primary key (\<open>pk is None\<close>).
\<close>

type_synonym money = rat
type_synonym date = int
type_synonym timestamp = int

datatype water_billing = Water_fixed | Water_metered | Water_included

datatype lease_state = Lease_active | Lease_expired | Lease_terminated

datatype invoice_status = Inv_pending | Inv_partial | Inv_paid | Inv_overdue

datatype payment_status = Pay_pending | Pay_confirmed | Pay_failed

datatype payment_method = Mpesa | Cash | Bank | Cheque

text \<open>\<open>properties/models.py\<close>: \<open>Property\<close> and \<open>Unit\<close>.\<close>

record property =
  prop_pk :: nat
  prop_landlord :: nat

record unit_row =
  unit_pk :: nat
  unit_property :: nat
  garbage_fee :: money
  water_billing_type :: water_billing
  water_fixed_amount :: money
  water_rate_per_unit :: money
  last_water_reading :: money

text \<open>\<open>tenants_mgmt/models.py\<close>: \<open>Lease\<close>; \<open>rent_amount\<close> is the lease's own copy of the rent.\<close>

record lease =
  lease_pk :: nat
  lease_unit :: nat
  lease_status :: lease_state
  lease_rent_amount :: money

text \<open>\<open>invoicing/models.py\<close>: \<open>Invoice\<close>.\<close>

record invoice =
  inv_pk :: "nat option"
  inv_lease :: nat
  invoice_number :: string
  billing_month :: date
  due_date :: date
  rent_amount :: money
  water_amount :: money
  garbage_amount :: money
  other_charges :: money
  total_amount :: money
  amount_paid :: money
  inv_status :: invoice_status

text \<open>
  \<open>payments/models.py\<close>: \<open>Payment\<close>. The field \<open>invoice\<close> is a foreign key; the
  Python object caches the related \<open>Invoice\<close> object once it has been read or assigned
  (\<open>pay_invoice_obj\<close>), and every later \<open>payment.invoice\<close> is that same object.
\<close>

record payment =
  pay_pk :: "nat option"
  pay_invoice :: nat
  pay_invoice_obj :: "invoice option"
  amount :: money
  pay_method :: payment_method
  mpesa_receipt_number :: string
  phone_number :: string
  transaction_id :: string
  is_manual :: bool
  pay_notes :: string
  pay_status :: payment_status
  confirmed_at :: "timestamp option"
  created_at :: timestamp

text \<open>The storage: one list of rows per table, in insertion order.\<close>

record db =
  properties :: "property list"
  units :: "unit_row list"
  leases :: "lease list"
  invoices :: "invoice list"
  payments :: "payment list"

text \<open>
  What a request handler reads from outside the storage: the clock
  (\<open>timezone.now()\<close>), and the invoice number that \<open>generate_invoice_number\<close> draws
  for a new invoice of a lease (a \<open>uuid4\<close> suffix, so an input of the model).
\<close>

record env =
  today :: date
  now :: timestamp
  gen :: "nat \<Rightarrow> string"

datatype error =
    LoginRequired
  | AccessDenied
  | Http404
  | MissingFields
  | InvalidBillingMonth
  | InvalidAmount
  | DuplicateInvoice
  | PaidInvoice
  | HasPayments
  | AlreadyConfirmed
  | ConfirmedPayment
  | IntegrityError
  | ValueError
  | InvalidOperation
  | DoesNotExist
  | ServerError

text \<open>
  An operation returns its outcome together with the storage it leaves behind. \<open>Inl\<close>
  is a raised exception or an error response. \<open>@transaction.atomic\<close> restores the
  storage when the wrapped handler fails; every wrapped handler of this repository
  returns its error responses before its first write, so restoring on every \<open>Inl\<close> is
  what the decorator does.
\<close>

definition atomic :: "(db \<Rightarrow> (error + 'a) \<times> db) \<Rightarrow> db \<Rightarrow> (error + 'a) \<times> db" where
  "atomic f d = (case f d of (Inl err, _) \<Rightarrow> (Inl err, d) | (Inr x, d') \<Rightarrow> (Inr x, d'))"

section \<open>Unit rate engine\<close>

text \<open>\<open>Unit.get_water_charge(self, current_reading=None)\<close>.\<close>

definition get_water_charge :: "unit_row \<Rightarrow> money option \<Rightarrow> money" where
  "get_water_charge self current_reading =
     (if water_billing_type self = Water_included then 0
      else if water_billing_type self = Water_fixed then water_fixed_amount self
      else (case current_reading of
              Some r \<Rightarrow>
                (let consumption = r - last_water_reading self;
                     consumption = (if consumption < 0 then 0 else consumption)
                 in consumption * water_rate_per_unit self)
            | None \<Rightarrow> 0))"

section \<open>Invoice ledger\<close>

text \<open>\<open>Invoice.update_status\<close>, with \<open>timezone.now().date()\<close> passed in.\<close>

definition update_status :: "date \<Rightarrow> invoice \<Rightarrow> invoice" where
  "update_status tday self =
     (if amount_paid self \<ge> total_amount self then self\<lparr>inv_status := Inv_paid\<rparr>
      else if amount_paid self > 0 then self\<lparr>inv_status := Inv_partial\<rparr>
      else if due_date self < tday then self\<lparr>inv_status := Inv_overdue\<rparr>
      else self\<lparr>inv_status := Inv_pending\<rparr>)"

text \<open>\<open>Invoice.balance\<close>.\<close>

definition balance :: "invoice \<Rightarrow> money" where
  "balance self = total_amount self - amount_paid self"

text \<open>
  The status rule in the specification's words, as a function of
  \<open>(amount_paid, total_amount, due_date, today)\<close>.
\<close>

definition spec_status :: "money \<Rightarrow> money \<Rightarrow> date \<Rightarrow> date \<Rightarrow> invoice_status" where
  "spec_status paid_amt tot due tday =
     (if paid_amt \<ge> tot then Inv_paid
      else if paid_amt > 0 then Inv_partial
      else if due < tday then Inv_overdue
      else Inv_pending)"

text \<open>A fresh primary key for an auto-increment column.\<close>

definition fresh_pk :: "nat option list \<Rightarrow> nat" where
  "fresh_pk ks = Suc (fold (\<lambda>k m. case k of None \<Rightarrow> m | Some n \<Rightarrow> max n m) ks 0)"

text \<open>
  \<open>models.Model.save\<close> for an invoice (\<open>super().save()\<close>): an object without primary
  key is inserted under a fresh one, an object with a primary key replaces its row. The
  table has two uniqueness constraints, \<open>invoice_number\<close> (\<open>unique=True\<close>) and
  \<open>unique_together = ['lease', 'billing_month']\<close>; violating one raises
  \<open>IntegrityError\<close>.
\<close>

definition inv_conflict :: "invoice \<Rightarrow> invoice \<Rightarrow> bool" where
  "inv_conflict self r \<longleftrightarrow>
     inv_pk r \<noteq> inv_pk self \<and>
     (invoice_number r = invoice_number self \<or>
      (inv_lease r = inv_lease self \<and> billing_month r = billing_month self))"

definition model_save_invoice :: "invoice \<Rightarrow> db \<Rightarrow> (error + invoice) \<times> db" where
  "model_save_invoice self d =
     (if list_ex (inv_conflict self) (invoices d) then (Inl IntegrityError, d)
      else (case inv_pk self of
              None \<Rightarrow>
                (let self' = self\<lparr>inv_pk := Some (fresh_pk (map inv_pk (invoices d)))\<rparr>
                 in (Inr self', d\<lparr>invoices := invoices d @ [self']\<rparr>))
            | Some k \<Rightarrow>
                if list_ex (\<lambda>r. inv_pk r = Some k) (invoices d)
                then (Inr self, d\<lparr>invoices :=
                            map (\<lambda>r. if inv_pk r = Some k then self else r) (invoices d)\<rparr>)
                else (Inr self, d\<lparr>invoices := invoices d @ [self]\<rparr>)))"

text \<open>
  \<open>Invoice.save\<close>: draw an invoice number if there is none, recompute the total from the
  four components, derive the status, then store. (The conversions \<open>Decimal(str(x))\<close>
  are identities on decimals; a \<open>due_date\<close> given as a string is parsed by the caller
  in this model, see \<open>objects_create_invoice\<close>.)
\<close>

definition Invoice_save :: "env \<Rightarrow> invoice \<Rightarrow> db \<Rightarrow> (error + invoice) \<times> db" where
  "Invoice_save e self d =
     (let self = (if invoice_number self = [] then self\<lparr>invoice_number := gen e (inv_lease self)\<rparr>
                  else self);
          self = self\<lparr>total_amount :=
                   rent_amount self + water_amount self + garbage_amount self + other_charges self\<rparr>;
          self = update_status (today e) self
      in model_save_invoice self d)"

section \<open>Tenancy guard\<close>

text \<open>
  What \<open>TenantMiddleware\<close> and the authentication layer attach to a request:
  whether the user is logged in, \<open>request.user.is_landlord\<close>, and
  \<open>request.landlord\<close> (\<open>None\<close> unless the user is a landlord with a profile).
\<close>

record request =
  is_authenticated :: bool
  is_landlord :: bool
  req_landlord :: "nat option"

text \<open>
  The queryset filter \<open>unit__unit_property__landlord=request.landlord\<close> on leases and
  \<open>lease__unit__unit_property__landlord=request.landlord\<close> on invoices: a join along
  the foreign keys. A filter on \<open>None\<close> matches no row.
\<close>

definition lease_owned_by :: "db \<Rightarrow> nat option \<Rightarrow> lease \<Rightarrow> bool" where
  "lease_owned_by d l ls \<longleftrightarrow>
     list_ex (\<lambda>u. unit_pk u = lease_unit ls \<and>
                list_ex (\<lambda>p. prop_pk p = unit_property u \<and> Some (prop_landlord p) = l)
                  (properties d))
       (units d)"

definition invoice_owned_by :: "db \<Rightarrow> nat option \<Rightarrow> invoice \<Rightarrow> bool" where
  "invoice_owned_by d l iv \<longleftrightarrow>
     list_ex (\<lambda>ls. lease_pk ls = inv_lease iv \<and> lease_owned_by d l ls) (leases d)"

definition payment_owned_by :: "db \<Rightarrow> nat option \<Rightarrow> payment \<Rightarrow> bool" where
  "payment_owned_by d l p \<longleftrightarrow>
     list_ex (\<lambda>iv. inv_pk iv = Some (pay_invoice p) \<and> invoice_owned_by d l iv) (invoices d)"

text \<open>\<open>get_object_or_404(Model, pk=pk, ...)\<close> with the landlord filter.\<close>

definition get_lease_or_404 :: "db \<Rightarrow> nat option \<Rightarrow> nat \<Rightarrow> error + lease" where
  "get_lease_or_404 d l k =
     (case find (\<lambda>ls. lease_pk ls = k \<and> lease_owned_by d l ls) (leases d) of
        None \<Rightarrow> Inl Http404 | Some ls \<Rightarrow> Inr ls)"

definition get_invoice_or_404 :: "db \<Rightarrow> nat option \<Rightarrow> nat \<Rightarrow> error + invoice" where
  "get_invoice_or_404 d l k =
     (case find (\<lambda>r. inv_pk r = Some k \<and> invoice_owned_by d l r) (invoices d) of
        None \<Rightarrow> Inl Http404 | Some r \<Rightarrow> Inr r)"

definition get_payment_or_404 :: "db \<Rightarrow> nat option \<Rightarrow> nat \<Rightarrow> error + payment" where
  "get_payment_or_404 d l k =
     (case find (\<lambda>r. pay_pk r = Some k \<and> payment_owned_by d l r) (payments d) of
        None \<Rightarrow> Inl Http404 | Some r \<Rightarrow> Inr r)"

text \<open>
  The head of every landlord view: \<open>LoginRequiredMixin\<close>, then
  \<open>if not request.user.is_landlord: messages.error(request, 'Access denied.')\<close>.
\<close>

definition landlord_gate :: "request \<Rightarrow> error option" where
  "landlord_gate rq =
     (if \<not> is_authenticated rq then Some LoginRequired
      else if \<not> is_landlord rq then Some AccessDenied
      else None)"

text \<open>
  The base querysets of \<open>InvoiceListView.get\<close> and \<open>PaymentListView.get\<close>; the
  status, property, month and method filters of the views only narrow them.
\<close>

definition landlord_invoices :: "db \<Rightarrow> nat option \<Rightarrow> invoice list" where
  "landlord_invoices d l = filter (invoice_owned_by d l) (invoices d)"

definition landlord_payments :: "db \<Rightarrow> nat option \<Rightarrow> payment list" where
  "landlord_payments d l = filter (payment_owned_by d l) (payments d)"

definition InvoiceListView_get :: "request \<Rightarrow> db \<Rightarrow> error + invoice list" where
  "InvoiceListView_get rq d =
     (case landlord_gate rq of Some err \<Rightarrow> Inl err
      | None \<Rightarrow> Inr (landlord_invoices d (req_landlord rq)))"

definition PaymentListView_get :: "request \<Rightarrow> db \<Rightarrow> error + payment list" where
  "PaymentListView_get rq d =
     (case landlord_gate rq of Some err \<Rightarrow> Inl err
      | None \<Rightarrow> Inr (landlord_payments d (req_landlord rq)))"

text \<open>Primary keys are unique along the ownership chain.\<close>

definition ownership_keys_ok :: "db \<Rightarrow> bool" where
  "ownership_keys_ok d \<longleftrightarrow>
     distinct (map prop_pk (properties d)) \<and> distinct (map unit_pk (units d)) \<and>
     distinct (map lease_pk (leases d)) \<and> distinct (map inv_pk (invoices d))"

section \<open>Invoice views\<close>

text \<open>
  A decimal form field after \<open>Decimal(str(value))\<close>: the parsed number, or no number
  (the conversion raises \<open>InvalidOperation\<close>). A date form field after \<open>strptime\<close>:
  the date, or none (\<open>strptime\<close> raises \<open>ValueError\<close>).
\<close>

text \<open>
  \<open>Invoice.objects.create(...)\<close>: build the object (\<open>amount_paid\<close> 0, status
  \<open>pending\<close>, no number, no primary key) and save it; \<open>Invoice.save\<close> parses a
  \<open>due_date\<close> string first.
\<close>

definition objects_create_invoice ::
  "env \<Rightarrow> nat \<Rightarrow> date \<Rightarrow> date option \<Rightarrow> money \<Rightarrow> money \<Rightarrow> money \<Rightarrow> money \<Rightarrow> db
     \<Rightarrow> (error + invoice) \<times> db" where
  "objects_create_invoice e lease_id bm due rent water garbage other d =
     (case due of
        None \<Rightarrow> (Inl ValueError, d)
      | Some dd \<Rightarrow>
          Invoice_save e
            \<lparr>inv_pk = None, inv_lease = lease_id, invoice_number = [], billing_month = bm,
             due_date = dd, rent_amount = rent, water_amount = water, garbage_amount = garbage,
             other_charges = other, total_amount = 0, amount_paid = 0,
             inv_status = Inv_pending\<rparr> d)"

text \<open>\<open>Invoice.objects.filter(lease=lease, billing_month=billing_month_date).exists()\<close>.\<close>

definition invoice_exists :: "db \<Rightarrow> nat \<Rightarrow> date \<Rightarrow> bool" where
  "invoice_exists d lease_id bm \<longleftrightarrow>
     list_ex (\<lambda>r. inv_lease r = lease_id \<and> billing_month r = bm) (invoices d)"

record invoice_form =
  f_lease :: nat
  f_billing_month :: "date option"
  f_due_date :: "date option"
  f_rent_amount :: "money option"
  f_water_amount :: "money option"
  f_garbage_amount :: "money option"
  f_other_charges :: "money option"

text \<open>\<open>InvoiceCreateView.post\<close>.\<close>

definition InvoiceCreateView_post ::
  "env \<Rightarrow> request \<Rightarrow> invoice_form \<Rightarrow> db \<Rightarrow> (error + invoice) \<times> db" where
  "InvoiceCreateView_post e rq f =
     atomic (\<lambda>d.
       case landlord_gate rq of Some err \<Rightarrow> (Inl err, d) | None \<Rightarrow>
       (case get_lease_or_404 d (req_landlord rq) (f_lease f) of
          Inl err \<Rightarrow> (Inl err, d)
        | Inr ls \<Rightarrow>
       (case f_billing_month f of
          None \<Rightarrow> (Inl InvalidBillingMonth, d)
        | Some bm \<Rightarrow>
            if invoice_exists d (lease_pk ls) bm then (Inl DuplicateInvoice, d)
            else (case (f_rent_amount f, f_water_amount f, f_garbage_amount f, f_other_charges f) of
                    (Some rent, Some water, Some garbage, Some other) \<Rightarrow>
                      objects_create_invoice e (lease_pk ls) bm (f_due_date f)
                        rent water garbage other d
                  | _ \<Rightarrow> (Inl InvalidOperation, d)))))"

text \<open>\<open>InvoiceDetailView.get\<close>: a read.\<close>

definition InvoiceDetailView_get :: "request \<Rightarrow> nat \<Rightarrow> db \<Rightarrow> (error + invoice) \<times> db" where
  "InvoiceDetailView_get rq k d =
     (case landlord_gate rq of Some err \<Rightarrow> (Inl err, d) | None \<Rightarrow>
      (get_invoice_or_404 d (req_landlord rq) k, d))"

text \<open>\<open>InvoiceUpdateView.post\<close>.\<close>

definition InvoiceUpdateView_post ::
  "env \<Rightarrow> request \<Rightarrow> nat \<Rightarrow> invoice_form \<Rightarrow> db \<Rightarrow> (error + invoice) \<times> db" where
  "InvoiceUpdateView_post e rq k f =
     atomic (\<lambda>d.
       case landlord_gate rq of Some err \<Rightarrow> (Inl err, d) | None \<Rightarrow>
       (case get_invoice_or_404 d (req_landlord rq) k of
          Inl err \<Rightarrow> (Inl err, d)
        | Inr iv \<Rightarrow>
            if inv_status iv = Inv_paid then (Inl PaidInvoice, d)
            else (case f_billing_month f of
                    None \<Rightarrow> (Inl InvalidBillingMonth, d)
                  | Some bm \<Rightarrow>
                 (case (f_rent_amount f, f_water_amount f, f_garbage_amount f, f_other_charges f) of
                    (Some rent, Some water, Some garbage, Some other) \<Rightarrow>
                      (case f_due_date f of
                         None \<Rightarrow> (Inl ValueError, d)
                       | Some dd \<Rightarrow>
                           Invoice_save e
                             (iv\<lparr>billing_month := bm, due_date := dd, rent_amount := rent,
                                  water_amount := water, garbage_amount := garbage,
                                  other_charges := other\<rparr>) d)
                  | _ \<Rightarrow> (Inl InvalidOperation, d)))))"

text \<open>
  \<open>InvoiceDeleteView.post\<close>; \<open>invoice.payments.exists()\<close> looks at the payments of
  the invoice, whatever their status.
\<close>

definition InvoiceDeleteView_post :: "request \<Rightarrow> nat \<Rightarrow> db \<Rightarrow> (error + unit) \<times> db" where
  "InvoiceDeleteView_post rq k =
     atomic (\<lambda>d.
       case landlord_gate rq of Some err \<Rightarrow> (Inl err, d) | None \<Rightarrow>
       (case get_invoice_or_404 d (req_landlord rq) k of
          Inl err \<Rightarrow> (Inl err, d)
        | Inr iv \<Rightarrow>
            if inv_status iv = Inv_paid then (Inl PaidInvoice, d)
            else if list_ex (\<lambda>p. pay_invoice p = k) (payments d) then (Inl HasPayments, d)
            else (Inr (), d\<lparr>invoices := filter (\<lambda>r. inv_pk r \<noteq> Some k) (invoices d)\<rparr>)))"

text \<open>
  The loop of \<open>GenerateMonthlyInvoicesView.post\<close> over the active leases, carrying
  \<open>created_count\<close> and \<open>skipped_count\<close>. \<open>lease.unit\<close> follows the foreign key;
  \<open>get_water_charge()\<close> is called without a reading.
\<close>

fun generate_loop ::
  "env \<Rightarrow> date \<Rightarrow> date option \<Rightarrow> lease list \<Rightarrow> nat \<times> nat \<Rightarrow> db
     \<Rightarrow> (error + nat \<times> nat) \<times> db" where
  "generate_loop e bm due [] (created, skipped) d = (Inr (created, skipped), d)"
| "generate_loop e bm due (ls # rest) (created, skipped) d =
     (if invoice_exists d (lease_pk ls) bm
      then generate_loop e bm due rest (created, Suc skipped) d
      else (case find (\<lambda>u. unit_pk u = lease_unit ls) (units d) of
              None \<Rightarrow> (Inl DoesNotExist, d)
            | Some u \<Rightarrow>
                (case objects_create_invoice e (lease_pk ls) bm due (lease_rent_amount ls)
                        (get_water_charge u None) (garbage_fee u) 0 d of
                   (Inl err, d') \<Rightarrow> (Inl err, d')
                 | (Inr _, d') \<Rightarrow> generate_loop e bm due rest (Suc created, skipped) d')))"

text \<open>
  \<open>Lease.objects.filter(unit__unit_property__landlord=request.landlord, status='active')\<close>,
  in table order.
\<close>

definition active_leases :: "db \<Rightarrow> nat option \<Rightarrow> lease list" where
  "active_leases d l =
     filter (\<lambda>ls. lease_owned_by d l ls \<and> lease_status ls = Lease_active) (leases d)"

text \<open>
  \<open>GenerateMonthlyInvoicesView.post\<close>; the whole handler is decorated with
  \<open>@transaction.atomic\<close>. The outcome is \<open>(created_count, skipped_count)\<close>.
\<close>

definition GenerateMonthlyInvoicesView_post ::
  "env \<Rightarrow> request \<Rightarrow> date option \<Rightarrow> date option \<Rightarrow> db \<Rightarrow> (error + nat \<times> nat) \<times> db" where
  "GenerateMonthlyInvoicesView_post e rq billing due =
     atomic (\<lambda>d.
       case landlord_gate rq of Some err \<Rightarrow> (Inl err, d) | None \<Rightarrow>
       (case billing of
          None \<Rightarrow> (Inl InvalidBillingMonth, d)
        | Some bm \<Rightarrow> generate_loop e bm due (active_leases d (req_landlord rq)) (0, 0) d))"

section \<open>Payment reconciler\<close>

text \<open>
  \<open>models.Model.save\<close> for a payment: insert under a fresh primary key (\<open>created_at\<close>
  is \<open>auto_now_add\<close>) or replace the row. The row does not hold the cached invoice
  object.
\<close>

definition model_save_payment :: "env \<Rightarrow> payment \<Rightarrow> db \<Rightarrow> payment \<times> db" where
  "model_save_payment e self d =
     (case pay_pk self of
        None \<Rightarrow>
          (let self' = self\<lparr>pay_pk := Some (fresh_pk (map pay_pk (payments d))),
                            created_at := now e\<rparr>
           in (self', d\<lparr>payments := payments d @ [self'\<lparr>pay_invoice_obj := None\<rparr>]\<rparr>))
      | Some k \<Rightarrow>
          (self, d\<lparr>payments :=
                    map (\<lambda>r. if pay_pk r = Some k then self\<lparr>pay_invoice_obj := None\<rparr> else r)
                      (payments d)\<rparr>))"

text \<open>
  \<open>self.invoice\<close> on a payment: the cached object, or the row read through the foreign
  key (and cached from then on).
\<close>

definition payment_invoice :: "payment \<Rightarrow> db \<Rightarrow> error + invoice" where
  "payment_invoice self d =
     (case pay_invoice_obj self of
        Some iv \<Rightarrow> Inr iv
      | None \<Rightarrow>
          (case find (\<lambda>r. inv_pk r = Some (pay_invoice self)) (invoices d) of
             None \<Rightarrow> Inl DoesNotExist | Some iv \<Rightarrow> Inr iv))"

text \<open>\<open>old_status\<close> in \<open>Payment.save\<close>: \<open>None\<close> for a new payment, else the stored status.\<close>

definition stored_status :: "payment \<Rightarrow> db \<Rightarrow> error + payment_status option" where
  "stored_status self d =
     (case pay_pk self of
        None \<Rightarrow> Inr None
      | Some k \<Rightarrow>
          (case find (\<lambda>r. pay_pk r = Some k) (payments d) of
             None \<Rightarrow> Inl DoesNotExist | Some old_payment \<Rightarrow> Inr (Some (pay_status old_payment))))"

text \<open>
  \<open>Payment.save\<close>: store the payment; if it is confirmed now and was not before, add its
  amount to the invoice's \<open>amount_paid\<close> and save the invoice. The payment keeps the
  updated invoice object.
\<close>

definition Payment_save :: "env \<Rightarrow> payment \<Rightarrow> db \<Rightarrow> (error + payment) \<times> db" where
  "Payment_save e self d =
     (case stored_status self d of
        Inl err \<Rightarrow> (Inl err, d)
      | Inr old_status \<Rightarrow>
          (case model_save_payment e self d of (self, d) \<Rightarrow>
             if pay_status self = Pay_confirmed \<and> old_status \<noteq> Some Pay_confirmed
             then (case payment_invoice self d of
                     Inl err \<Rightarrow> (Inl err, d)
                   | Inr iv \<Rightarrow>
                       (case Invoice_save e (iv\<lparr>amount_paid := amount_paid iv + amount self\<rparr>) d of
                          (Inl err, d) \<Rightarrow> (Inl err, d)
                        | (Inr iv, d) \<Rightarrow> (Inr (self\<lparr>pay_invoice_obj := Some iv\<rparr>), d)))
             else (Inr self, d)))"

text \<open>\<open>Payment.confirm_payment\<close> and \<open>Payment.fail_payment\<close>.\<close>

definition confirm_payment :: "env \<Rightarrow> payment \<Rightarrow> db \<Rightarrow> (error + payment) \<times> db" where
  "confirm_payment e self d =
     (if pay_status self \<noteq> Pay_confirmed
      then Payment_save e (self\<lparr>pay_status := Pay_confirmed, confirmed_at := Some (now e)\<rparr>) d
      else (Inr self, d))"

definition fail_payment :: "env \<Rightarrow> payment \<Rightarrow> db \<Rightarrow> (error + payment) \<times> db" where
  "fail_payment e self d =
     (if pay_status self \<noteq> Pay_failed
      then Payment_save e (self\<lparr>pay_status := Pay_failed\<rparr>) d
      else (Inr self, d))"

section \<open>Payment views\<close>

text \<open>
  A decimal form field: absent or empty, present but not a number (\<open>Decimal(str(x))\<close>
  raises), or a number.
\<close>

datatype decimal_input = Missing | Malformed | Parsed money

record payment_form =
  pf_invoice :: "nat option"
  pf_amount :: decimal_input
  pf_method :: "payment_method option"
  pf_reference :: string
  pf_notes :: string

record recorded =
  rec_payment :: payment
  rec_invoice :: invoice
  rec_warning :: bool

text \<open>
  \<open>RecordManualPaymentView.post\<close>. \<open>Payment.objects.create(invoice=invoice, ...)\<close>
  stores the view's \<open>invoice\<close> object in the payment, so after the call
  \<open>payment.invoice\<close> and \<open>invoice\<close> are one object: the view goes on with the object
  that \<open>Payment.save\<close> has updated.
\<close>

definition RecordManualPaymentView_post ::
  "env \<Rightarrow> request \<Rightarrow> payment_form \<Rightarrow> db \<Rightarrow> (error + recorded) \<times> db" where
  "RecordManualPaymentView_post e rq f =
     atomic (\<lambda>d.
       case landlord_gate rq of Some err \<Rightarrow> (Inl err, d) | None \<Rightarrow>
       (case (pf_invoice f, pf_method f) of
          (Some k, Some m) \<Rightarrow>
            if pf_amount f = Missing then (Inl MissingFields, d)
            else
            (case get_invoice_or_404 d (req_landlord rq) k of
               Inl err \<Rightarrow> (Inl err, d)
             | Inr invoice \<Rightarrow>
            (case pf_amount f of
               Parsed requested \<Rightarrow>
                 if requested \<le> 0 then (Inl InvalidAmount, d)
                 else
                 (let invoice_balance = balance invoice;
                      warn = (requested > invoice_balance);
                      amt = (if warn then invoice_balance else requested)
                  in case Payment_save e
                            \<lparr>pay_pk = None, pay_invoice = k, pay_invoice_obj = Some invoice,
                             amount = amt, pay_method = m, mpesa_receipt_number = [],
                             phone_number = [],
                             transaction_id =
                               (if pf_reference f \<noteq> [] then pf_reference f else ''MANUAL''),
                             is_manual = True, pay_notes = pf_notes f,
                             pay_status = Pay_confirmed, confirmed_at = Some (now e),
                             created_at = now e\<rparr> d of
                       (Inl err, d1) \<Rightarrow> (Inl err, d1)
                     | (Inr pmt, d1) \<Rightarrow>
                         (let invoice = (case pay_invoice_obj pmt of
                                           Some cached \<Rightarrow> cached | None \<Rightarrow> invoice)
                          in case Invoice_save e
                                    (invoice\<lparr>amount_paid := amount_paid invoice + amt\<rparr>) d1 of
                               (Inl err, d2) \<Rightarrow> (Inl err, d2)
                             | (Inr invoice, d2) \<Rightarrow>
                                 (Inr \<lparr>rec_payment = pmt, rec_invoice = invoice,
                                       rec_warning = warn\<rparr>, d2)))
             | _ \<Rightarrow> (Inl InvalidAmount, d)))
        | _ \<Rightarrow> (Inl MissingFields, d)))"

text \<open>The phone number clean-up of \<open>InitiateMpesaPaymentView.post\<close>.\<close>

definition sanitize_phone :: "string \<Rightarrow> string" where
  "sanitize_phone ph =
     (let ph = filter (\<lambda>c. c \<noteq> CHR '' '' \<and> c \<noteq> CHR ''+'') ph
      in if take 1 ph = ''0'' then ''254'' @ drop 1 ph
         else if take 3 ph \<noteq> ''254'' then ''254'' @ ph
         else ph)"

record mpesa_form =
  mf_invoice :: "nat option"
  mf_phone :: "string option"
  mf_amount :: decimal_input

text \<open>
  \<open>InitiateMpesaPaymentView.post\<close>. The view is a plain \<open>View\<close>: it has no login
  requirement and does not look at the requesting user; the invoice is read by
  \<open>get_object_or_404(Invoice, pk=invoice_id)\<close>. The handler's \<open>except Exception\<close>
  turns a missing invoice into a 500 response. Its only write is its last statement.
\<close>

definition InitiateMpesaPaymentView_post ::
  "env \<Rightarrow> request \<Rightarrow> mpesa_form \<Rightarrow> db \<Rightarrow> (error + payment) \<times> db" where
  "InitiateMpesaPaymentView_post e rq f =
     atomic (\<lambda>d.
       case (mf_invoice f, mf_phone f) of
         (Some k, Some ph) \<Rightarrow>
           if ph = [] \<or> mf_amount f = Missing then (Inl MissingFields, d)
           else
           (case find (\<lambda>r. inv_pk r = Some k) (invoices d) of
              None \<Rightarrow> (Inl ServerError, d)
            | Some invoice \<Rightarrow>
                (case mf_amount f of
                   Parsed amt \<Rightarrow>
                     if amt \<le> 0 then (Inl InvalidAmount, d)
                     else
                     (case Payment_save e
                             \<lparr>pay_pk = None, pay_invoice = k, pay_invoice_obj = Some invoice,
                              amount = amt, pay_method = Mpesa, mpesa_receipt_number = [],
                              phone_number = sanitize_phone ph, transaction_id = ''PENDING'',
                              is_manual = False, pay_notes = [], pay_status = Pay_pending,
                              confirmed_at = None, created_at = now e\<rparr> d of
                        (Inl err, d1) \<Rightarrow> (Inl ServerError, d1)
                      | (Inr pmt, d1) \<Rightarrow> (Inr pmt, d1))
                 | _ \<Rightarrow> (Inl InvalidAmount, d)))
       | _ \<Rightarrow> (Inl MissingFields, d))"

text \<open>\<open>PaymentDetailView.get\<close>: a read.\<close>

definition PaymentDetailView_get :: "request \<Rightarrow> nat \<Rightarrow> db \<Rightarrow> (error + payment) \<times> db" where
  "PaymentDetailView_get rq k d =
     (case landlord_gate rq of Some err \<Rightarrow> (Inl err, d) | None \<Rightarrow>
      (get_payment_or_404 d (req_landlord rq) k, d))"

text \<open>\<open>ConfirmPaymentView.post\<close>.\<close>

definition ConfirmPaymentView_post ::
  "env \<Rightarrow> request \<Rightarrow> nat \<Rightarrow> db \<Rightarrow> (error + payment) \<times> db" where
  "ConfirmPaymentView_post e rq k =
     atomic (\<lambda>d.
       case landlord_gate rq of Some err \<Rightarrow> (Inl err, d) | None \<Rightarrow>
       (case get_payment_or_404 d (req_landlord rq) k of
          Inl err \<Rightarrow> (Inl err, d)
        | Inr pmt \<Rightarrow>
            if pay_status pmt = Pay_confirmed then (Inl AlreadyConfirmed, d)
            else confirm_payment e pmt d))"

text \<open>\<open>DeletePaymentView.post\<close>.\<close>

definition DeletePaymentView_post :: "request \<Rightarrow> nat \<Rightarrow> db \<Rightarrow> (error + unit) \<times> db" where
  "DeletePaymentView_post rq k =
     atomic (\<lambda>d.
       case landlord_gate rq of Some err \<Rightarrow> (Inl err, d) | None \<Rightarrow>
       (case get_payment_or_404 d (req_landlord rq) k of
          Inl err \<Rightarrow> (Inl err, d)
        | Inr pmt \<Rightarrow>
            if pay_status pmt = Pay_confirmed then (Inl ConfirmedPayment, d)
            else (Inr (), d\<lparr>payments := filter (\<lambda>r. pay_pk r \<noteq> Some k) (payments d)\<rparr>)))"

section \<open>Gateway callback processor\<close>

text \<open>
  The lookup \<open>phone_number__icontains=...\<close>: the needle occurs somewhere in the column,
  letters compared without case.
\<close>

definition lower_char :: "char \<Rightarrow> char" where
  "lower_char c =
     (let n = (of_char c :: nat) in if 65 \<le> n \<and> n \<le> 90 then char_of (n + 32) else c)"

fun occurs_in :: "string \<Rightarrow> string \<Rightarrow> bool" where
  "occurs_in needle [] = (needle = [])"
| "occurs_in needle (c # cs) = (take (length needle) (c # cs) = needle \<or> occurs_in needle cs)"

definition icontains :: "string \<Rightarrow> string \<Rightarrow> bool" where
  "icontains hay needle = occurs_in (map lower_char needle) (map lower_char hay)"

text \<open>
  \<open>str(phone_number)[-9:] if phone_number else ''\<close>, on the text of the payload's
  \<open>PhoneNumber\<close> value (\<open>None\<close> when the payload has no such item).
\<close>

definition phone_suffix :: "string option \<Rightarrow> string" where
  "phone_suffix ph =
     (case ph of
        None \<Rightarrow> []
      | Some s \<Rightarrow> if s = [] then [] else drop (length s - 9) s)"

text \<open>
  \<open>Payment.objects.filter(phone_number__icontains=..., status='pending')
  .order_by('-created_at').first()\<close>. Rows with equal \<open>created_at\<close> keep their table
  order.
\<close>

definition find_callback_payment :: "db \<Rightarrow> string option \<Rightarrow> payment option" where
  "find_callback_payment d ph =
     (case sort_key (\<lambda>p. - created_at p)
             (filter (\<lambda>p. icontains (phone_number p) (phone_suffix ph) \<and>
                           pay_status p = Pay_pending) (payments d)) of
        [] \<Rightarrow> None
      | p # _ \<Rightarrow> Some p)"

text \<open>
  The fields the handler reads from the JSON body: \<open>ResultCode\<close>, \<open>ResultDesc\<close> and
  the metadata items \<open>MpesaReceiptNumber\<close> and \<open>PhoneNumber\<close>. A body that cannot be
  read this far is \<open>None\<close>.
\<close>

record callback =
  cb_result_code :: "int option"
  cb_result_desc :: string
  cb_receipt :: "string option"
  cb_phone :: "string option"

datatype callback_outcome = Cb_not_found | Cb_confirmed payment invoice | Cb_failed payment

text \<open>
  \<open>MpesaCallbackView.post\<close>. The handler is not atomic: every statement commits on its
  own, and any exception is answered with \<open>HttpResponse('ERROR', status=500)\<close>. A success
  callback without a receipt number stores \<open>None\<close> in a column that is not nullable,
  which the storage refuses.
\<close>

definition MpesaCallbackView_post ::
  "env \<Rightarrow> callback option \<Rightarrow> db \<Rightarrow> (error + callback_outcome) \<times> db" where
  "MpesaCallbackView_post e body d =
     (case body of
        None \<Rightarrow> (Inl ServerError, d)
      | Some cb \<Rightarrow>
     (case find_callback_payment d (cb_phone cb) of
        None \<Rightarrow> (Inr Cb_not_found, d)
      | Some pmt \<Rightarrow>
          if cb_result_code cb = Some 0
          then (case cb_receipt cb of
                  None \<Rightarrow> (Inl ServerError, d)
                | Some receipt \<Rightarrow>
                    (case Payment_save e
                            (pmt\<lparr>pay_status := Pay_confirmed, mpesa_receipt_number := receipt,
                                 transaction_id := receipt, confirmed_at := Some (now e)\<rparr>) d of
                       (Inl err, d1) \<Rightarrow> (Inl ServerError, d1)
                     | (Inr pmt, d1) \<Rightarrow>
                         (case payment_invoice pmt d1 of
                            Inl err \<Rightarrow> (Inl ServerError, d1)
                          | Inr invoice \<Rightarrow>
                              (case Invoice_save e
                                      (invoice\<lparr>amount_paid := amount_paid invoice + amount pmt\<rparr>)
                                      d1 of
                                 (Inl err, d2) \<Rightarrow> (Inl ServerError, d2)
                               | (Inr invoice, d2) \<Rightarrow> (Inr (Cb_confirmed pmt invoice), d2)))))
          else (case Payment_save e
                       (pmt\<lparr>pay_status := Pay_failed,
                            pay_notes := ''M-Pesa payment failed: '' @ cb_result_desc cb\<rparr>) d of
                  (Inl err, d1) \<Rightarrow> (Inl ServerError, d1)
                | (Inr pmt, d1) \<Rightarrow> (Inr (Cb_failed pmt), d1))))"

section \<open>Requests as a log\<close>

text \<open>
  The write requests of the billing core, for statements about every state the storage
  can be observed in: a log of requests, each with the clock and draws it saw, applied in
  order.
\<close>

datatype operation =
    Op_create_invoice request invoice_form
  | Op_update_invoice request nat invoice_form
  | Op_delete_invoice request nat
  | Op_generate_monthly request "date option" "date option"
  | Op_record_manual request payment_form
  | Op_initiate_mpesa request mpesa_form
  | Op_mpesa_callback "callback option"
  | Op_confirm_payment request nat
  | Op_delete_payment request nat

fun apply_operation :: "env \<Rightarrow> operation \<Rightarrow> db \<Rightarrow> db" where
  "apply_operation e (Op_create_invoice rq f) d = snd (InvoiceCreateView_post e rq f d)"
| "apply_operation e (Op_update_invoice rq k f) d = snd (InvoiceUpdateView_post e rq k f d)"
| "apply_operation e (Op_delete_invoice rq k) d = snd (InvoiceDeleteView_post rq k d)"
| "apply_operation e (Op_generate_monthly rq bm due) d =
     snd (GenerateMonthlyInvoicesView_post e rq bm due d)"
| "apply_operation e (Op_record_manual rq f) d = snd (RecordManualPaymentView_post e rq f d)"
| "apply_operation e (Op_initiate_mpesa rq f) d = snd (InitiateMpesaPaymentView_post e rq f d)"
| "apply_operation e (Op_mpesa_callback body) d = snd (MpesaCallbackView_post e body d)"
| "apply_operation e (Op_confirm_payment rq k) d = snd (ConfirmPaymentView_post e rq k d)"
| "apply_operation e (Op_delete_payment rq k) d = snd (DeletePaymentView_post rq k d)"

fun run_log :: "(env \<times> operation) list \<Rightarrow> db \<Rightarrow> db" where
  "run_log [] d = d"
| "run_log ((e, opn) # rest) d = run_log rest (apply_operation e opn d)"




text \<open>
  The integrity constraints the storage keeps: primary keys are present and unique,
  invoice numbers are present and unique (\<open>unique=True\<close>), there is one invoice per
  lease and billing month (\<open>unique_together\<close>), a stored payment row holds no cached
  object, and its foreign key points to an invoice.
\<close>

definition invoice_keys_ok :: "db \<Rightarrow> bool" where
  "invoice_keys_ok d \<longleftrightarrow>
     distinct (map inv_pk (invoices d)) \<and> None \<notin> set (map inv_pk (invoices d)) \<and>
     distinct (map invoice_number (invoices d)) \<and> [] \<notin> set (map invoice_number (invoices d)) \<and>
     distinct (map (\<lambda>r. (inv_lease r, billing_month r)) (invoices d))"


text \<open>
  The part of these constraints that says: at most one invoice per lease and billing
  month, under present and unique primary keys.
\<close>

definition invoice_table_ok :: "db \<Rightarrow> bool" where
  "invoice_table_ok d \<longleftrightarrow>
     distinct (map inv_pk (invoices d)) \<and> None \<notin> set (map inv_pk (invoices d)) \<and>
     distinct (map (\<lambda>r. (inv_lease r, billing_month r)) (invoices d))"

section \<open>Example data\<close>

text \<open>
  Two landlords, each with one property, one unit and one active lease. Invoice 1 (lease
  1, landlord 1) totals 18000 and is unpaid; invoice 2 belongs to landlord 2.
\<close>

definition ex_invoice :: invoice where
  "ex_invoice =
     \<lparr>inv_pk = Some 1, inv_lease = 1, invoice_number = ''INV-202611-0000AAAA'',
      billing_month = 100, due_date = 105, rent_amount = 17300, water_amount = 500,
      garbage_amount = 200, other_charges = 0, total_amount = 18000, amount_paid = 0,
      inv_status = Inv_pending\<rparr>"

definition ex_invoice_B :: invoice where
  "ex_invoice_B =
     \<lparr>inv_pk = Some 2, inv_lease = 2, invoice_number = ''INV-202611-0000BBBB'',
      billing_month = 100, due_date = 105, rent_amount = 20000, water_amount = 0,
      garbage_amount = 300, other_charges = 0, total_amount = 20300, amount_paid = 0,
      inv_status = Inv_pending\<rparr>"

definition ex_db :: db where
  "ex_db =
     \<lparr>properties = [\<lparr>prop_pk = 1, prop_landlord = 1\<rparr>, \<lparr>prop_pk = 2, prop_landlord = 2\<rparr>],
      units = [\<lparr>unit_pk = 1, unit_property = 1, garbage_fee = 200,
                water_billing_type = Water_fixed, water_fixed_amount = 500,
                water_rate_per_unit = 0, last_water_reading = 0\<rparr>,
               \<lparr>unit_pk = 2, unit_property = 2, garbage_fee = 300,
                water_billing_type = Water_metered, water_fixed_amount = 0,
                water_rate_per_unit = 50, last_water_reading = 100\<rparr>],
      leases = [\<lparr>lease_pk = 1, lease_unit = 1, lease_status = Lease_active,
                 lease_rent_amount = 17300\<rparr>,
                \<lparr>lease_pk = 2, lease_unit = 2, lease_status = Lease_active,
                 lease_rent_amount = 20000\<rparr>],
      invoices = [ex_invoice, ex_invoice_B],
      payments = []\<rparr>"

definition ex_env :: env where
  "ex_env = \<lparr>today = 106, now = 5000, gen = (\<lambda>k. ''INV-202611-'' @ replicate k CHR ''F'')\<rparr>"

definition landlord_A :: request where
  "landlord_A = \<lparr>is_authenticated = True, is_landlord = True, req_landlord = Some 1\<rparr>"

definition landlord_B :: request where
  "landlord_B = \<lparr>is_authenticated = True, is_landlord = True, req_landlord = Some 2\<rparr>"

text \<open>
  Payments: a failed and a pending M-Pesa payment on invoice 1, and a later pending one on
  invoice 2 of the other landlord.
\<close>

definition ex_failed_A :: payment where
  "ex_failed_A =
     \<lparr>pay_pk = Some 1, pay_invoice = 1, pay_invoice_obj = None, amount = 4000,
      pay_method = Mpesa, mpesa_receipt_number = [], phone_number = ''254711111111'',
      transaction_id = ''PENDING'', is_manual = False, pay_notes = [],
      pay_status = Pay_failed, confirmed_at = None, created_at = 4000\<rparr>"

definition ex_pending_A :: payment where
  "ex_pending_A =
     \<lparr>pay_pk = Some 2, pay_invoice = 1, pay_invoice_obj = None, amount = 6000,
      pay_method = Mpesa, mpesa_receipt_number = [], phone_number = ''254711111111'',
      transaction_id = ''PENDING'', is_manual = False, pay_notes = [],
      pay_status = Pay_pending, confirmed_at = None, created_at = 4100\<rparr>"

definition ex_pending_B :: payment where
  "ex_pending_B =
     \<lparr>pay_pk = Some 3, pay_invoice = 2, pay_invoice_obj = None, amount = 20300,
      pay_method = Mpesa, mpesa_receipt_number = [], phone_number = ''254722222222'',
      transaction_id = ''PENDING'', is_manual = False, pay_notes = [],
      pay_status = Pay_pending, confirmed_at = None, created_at = 4200\<rparr>"

definition ex_pay_db :: db where
  "ex_pay_db = ex_db\<lparr>payments := [ex_failed_A, ex_pending_A, ex_pending_B]\<rparr>"

definition manual_form :: "money \<Rightarrow> payment_form" where
  "manual_form a =
     \<lparr>pf_invoice = Some 1, pf_amount = Parsed a, pf_method = Some Cash, pf_reference = [],
      pf_notes = []\<rparr>"



section \<open>Unit rate engine: properties\<close>



section \<open>Invoice ledger: saving an invoice\<close>

lemma update_status_eq:
  "update_status tday self =
     self\<lparr>inv_status := spec_status (amount_paid self) (total_amount self) (due_date self) tday\<rparr>"
  by (simp add: update_status_def spec_status_def)

lemma model_save_invoice_error: "model_save_invoice self d = (Inl err, d') \<Longrightarrow> d' = d"
  by (auto simp: model_save_invoice_def Let_def split: if_splits option.splits)


lemma Invoice_save_error: "Invoice_save e self d = (Inl err, d') \<Longrightarrow> d' = d"
  by (auto simp: Invoice_save_def Let_def dest: model_save_invoice_error)





lemma model_save_payment_invoices: "invoices (snd (model_save_payment e self d)) = invoices d"
  by (simp add: model_save_payment_def Let_def split: option.splits)

lemma operations_preserve:
  fixes P :: "db \<Rightarrow> bool"
  assumes cong: "\<And>d d'. invoices d' = invoices d \<Longrightarrow> P d \<Longrightarrow> P d'"
    and save: "\<And>e self d. P d \<Longrightarrow> P (snd (Invoice_save e self d))"
    and del: "\<And>Q d. P d \<Longrightarrow> P (d\<lparr>invoices := filter Q (invoices d)\<rparr>)"
    and init: "P d"
  shows "P (apply_operation e opn d)"
proof -
  have at: "\<And>f d. P d \<Longrightarrow> P (snd (f d)) \<Longrightarrow> P (snd (atomic f d))"
    by (auto simp: atomic_def split: prod.splits sum.splits)
  have psave: "P (snd (Payment_save e self d))" if "P d" for e self d
  proof -
    obtain p1 d1 where m: "model_save_payment e self d = (p1, d1)"
      by (cases "model_save_payment e self d")
    have d1: "P d1"
      using cong [OF _ that, of d1] model_save_payment_invoices [of e self d] m by simp
    show ?thesis
      using that d1 m save [OF d1]
      apply (simp add: Payment_save_def split: sum.splits prod.splits)
      apply (auto simp: split: sum.splits prod.splits)
      apply (metis snd_conv)+
      done
  qed
  have create: "P (snd (objects_create_invoice e k bm due r w g ot d))" if "P d"
    for e k bm due r w g ot d
    using that by (auto simp: objects_create_invoice_def save split: option.splits)
  have loop: "P d \<Longrightarrow> P (snd (generate_loop e bm due ls cs d))" for e bm due ls cs d
  proof (induction e bm due ls cs d rule: generate_loop.induct)
    case (1 e bm due created skipped d)
    then show ?case by simp
  next
    case (2 e bm due ls rest created skipped d)
    show ?case
    proof (cases "invoice_exists d (lease_pk ls) bm")
      case True
      with 2 show ?thesis by simp
    next
      case False
      show ?thesis
      proof (cases "find (\<lambda>u. unit_pk u = lease_unit ls) (units d)")
        case None
        with False 2 show ?thesis by simp
      next
        case (Some u)
        obtain r d1 where c: "objects_create_invoice e (lease_pk ls) bm due (lease_rent_amount ls)
                          (get_water_charge u None) (garbage_fee u) 0 d = (r, d1)"
          by (cases "objects_create_invoice e (lease_pk ls) bm due (lease_rent_amount ls)
                          (get_water_charge u None) (garbage_fee u) 0 d")
        have d1: "P d1"
          using create [OF "2.prems", of e "lease_pk ls" bm due
                  "lease_rent_amount ls" "get_water_charge u None" "garbage_fee u" 0] c by simp
        show ?thesis
        proof (cases r)
          case (Inl err)
          with False Some c d1 show ?thesis by simp
        next
          case (Inr iv)
          with False Some c d1 "2.IH"(2) [OF False Some c [symmetric, unfolded Inr] refl d1]
          show ?thesis by simp
        qed
      qed
    qed
  qed
  have manual: "P (snd (RecordManualPaymentView_post e rq f d))" for rq f
    unfolding RecordManualPaymentView_post_def
  proof (rule at, goal_cases)
    case 1
    show ?case by (rule init)
  next
    case 2
    have step: "P (snd (case Payment_save e p d of
                       (Inl err, d1) \<Rightarrow> (Inl err, d1)
                     | (Inr pmt, d1) \<Rightarrow>
                         (let invoice = (case pay_invoice_obj pmt of Some cached \<Rightarrow> cached | None \<Rightarrow> iv0)
                          in case Invoice_save e (invoice\<lparr>amount_paid := amount_paid invoice + a\<rparr>) d1 of
                               (Inl err, d2) \<Rightarrow> (Inl err, d2)
                             | (Inr invoice, d2) \<Rightarrow>
                                 (Inr \<lparr>rec_payment = pmt, rec_invoice = invoice, rec_warning = w\<rparr>, d2))))"
      for p iv0 a w
    proof (cases "Payment_save e p d")
      case (Pair r d1)
      have d1: "P d1" using psave [OF init, of e p] Pair by simp
      show ?thesis
      proof (cases r)
        case (Inl err)
        with Pair d1 show ?thesis by simp
      next
        case (Inr pmt)
        let ?iv = "case pay_invoice_obj pmt of Some cached \<Rightarrow> cached | None \<Rightarrow> iv0"
        have "P (snd (Invoice_save e (?iv\<lparr>amount_paid := amount_paid ?iv + a\<rparr>) d1))"
          by (rule save [OF d1])
        with Pair Inr show ?thesis
          by (auto simp: Let_def split: prod.splits sum.splits)
      qed
    qed
    show ?case
      using init step
      by (auto simp: Let_def split: option.splits sum.splits decimal_input.splits)
  qed
  have mpesa: "P (snd (InitiateMpesaPaymentView_post e rq f d))" for rq f
    unfolding InitiateMpesaPaymentView_post_def
  proof (rule at, goal_cases)
    case 1
    show ?case by (rule init)
  next
    case 2
    have step: "P (snd (case Payment_save e p d of
                       (Inl err, d1) \<Rightarrow> (Inl ServerError, d1)
                     | (Inr pmt, d1) \<Rightarrow> (Inr pmt, d1)))" for p
      using psave [OF init, of e p]
      by (auto split: prod.splits sum.splits)
    show ?case
      using init step
      by (auto simp: Let_def split: option.splits sum.splits decimal_input.splits)
  qed
  have callback: "P (snd (MpesaCallbackView_post e body d))" for body
  proof -
    have ok: "P (snd (case Payment_save e p d of
                         (Inl err, d1) \<Rightarrow> (Inl ServerError, d1)
                       | (Inr pmt, d1) \<Rightarrow>
                           (case payment_invoice pmt d1 of
                              Inl err \<Rightarrow> (Inl ServerError, d1)
                            | Inr invoice \<Rightarrow>
                                (case Invoice_save e
                                        (invoice\<lparr>amount_paid := amount_paid invoice + amount pmt\<rparr>)
                                        d1 of
                                   (Inl err, d2) \<Rightarrow> (Inl ServerError, d2)
                                 | (Inr invoice, d2) \<Rightarrow> (Inr (Cb_confirmed pmt invoice), d2)))))" for p
    proof (cases "Payment_save e p d")
      case (Pair r d1)
      have d1: "P d1" using psave [OF init, of e p] Pair by simp
      show ?thesis
      proof (cases r)
        case (Inl err)
        with Pair d1 show ?thesis by simp
      next
        case (Inr pmt)
        show ?thesis
        proof (cases "payment_invoice pmt d1")
          case (Inl err)
          with Pair Inr d1 show ?thesis by simp
        next
          case r2: (Inr invoice)
          have "P (snd (Invoice_save e (invoice\<lparr>amount_paid := amount_paid invoice + amount pmt\<rparr>) d1))"
            by (rule save [OF d1])
          with Pair Inr r2 show ?thesis by (auto split: prod.splits sum.splits)
        qed
      qed
    qed
    have failed: "P (snd (case Payment_save e p d of
                    (Inl err, d1) \<Rightarrow> (Inl ServerError, d1)
                  | (Inr pmt, d1) \<Rightarrow> (Inr (Cb_failed pmt), d1)))" for p
      using psave [OF init, of e p]
      by (auto split: prod.splits sum.splits)
    show ?thesis
      using init ok failed
      by (auto simp: MpesaCallbackView_post_def split: option.splits)
  qed
  have delp: "P (d\<lparr>payments := ps\<rparr>)" for ps
    by (rule cong [OF _ init]) simp
  show ?thesis
  proof (cases opn)
    case (Op_create_invoice rq f)
    have "P (snd (InvoiceCreateView_post e rq f d))"
      unfolding InvoiceCreateView_post_def
      by (rule at [OF init]) (auto simp: create init split: option.splits sum.splits)
    with Op_create_invoice show ?thesis by simp
  next
    case (Op_update_invoice rq k f)
    have "P (snd (InvoiceUpdateView_post e rq k f d))"
      unfolding InvoiceUpdateView_post_def
      by (rule at [OF init]) (auto simp: save init split: option.splits sum.splits)
    with Op_update_invoice show ?thesis by simp
  next
    case (Op_delete_invoice rq k)
    have "P (snd (InvoiceDeleteView_post rq k d))"
      unfolding InvoiceDeleteView_post_def
      by (rule at [OF init]) (auto simp: del init split: option.splits sum.splits)
    with Op_delete_invoice show ?thesis by simp
  next
    case (Op_generate_monthly rq bm due)
    have "P (snd (GenerateMonthlyInvoicesView_post e rq bm due d))"
      unfolding GenerateMonthlyInvoicesView_post_def
      by (rule at [OF init]) (auto simp: loop init split: option.splits sum.splits)
    with Op_generate_monthly show ?thesis by simp
  next
    case (Op_record_manual rq f)
    with manual show ?thesis by simp
  next
    case (Op_initiate_mpesa rq f)
    with mpesa show ?thesis by simp
  next
    case (Op_mpesa_callback body)
    with callback show ?thesis by simp
  next
    case (Op_confirm_payment rq k)
    have "P (snd (ConfirmPaymentView_post e rq k d))"
      unfolding ConfirmPaymentView_post_def
      by (rule at [OF init])
         (auto simp: confirm_payment_def psave init split: option.splits sum.splits)
    with Op_confirm_payment show ?thesis by simp
  next
    case (Op_delete_payment rq k)
    have "P (snd (DeletePaymentView_post rq k d))"
      unfolding DeletePaymentView_post_def
      by (rule at [OF init]) (auto simp: delp init split: option.splits sum.splits)
    with Op_delete_payment show ?thesis by simp
  qed
qed

lemma run_log_preserve:
  fixes P :: "db \<Rightarrow> bool"
  assumes cong: "\<And>d d'. invoices d' = invoices d \<Longrightarrow> P d \<Longrightarrow> P d'"
    and save: "\<And>e self d. P d \<Longrightarrow> P (snd (Invoice_save e self d))"
    and del: "\<And>Q d. P d \<Longrightarrow> P (d\<lparr>invoices := filter Q (invoices d)\<rparr>)"
  shows "P d \<Longrightarrow> P (run_log ops d)"
proof (induction ops d rule: run_log.induct)
  case (1 d)
  then show ?case by simp
next
  case (2 e opn rest d)
  have "P (apply_operation e opn d)"
    by (rule operations_preserve [where P = P, OF cong save del "2.prems"])
  with 2 show ?case by simp
qed


section \<open>Invoice ledger: properties\<close>





section \<open>Payment reconciler: properties\<close>

lemmas ex_defs = ex_db_def ex_invoice_def ex_invoice_B_def ex_env_def landlord_A_def
  landlord_B_def ex_pay_db_def ex_failed_A_def ex_pending_A_def ex_pending_B_def manual_form_def

lemmas view_defs = RecordManualPaymentView_post_def atomic_def landlord_gate_def
  get_invoice_or_404_def get_payment_or_404_def invoice_owned_by_def lease_owned_by_def
  payment_owned_by_def Payment_save_def stored_status_def model_save_payment_def
  payment_invoice_def fresh_pk_def Invoice_save_def model_save_invoice_def update_status_def
  inv_conflict_def balance_def confirm_payment_def fail_payment_def
  ConfirmPaymentView_post_def Let_def

lemmas callback_defs = MpesaCallbackView_post_def find_callback_payment_def icontains_def
  phone_suffix_def lower_char_def

text \<open>
  Claim C1. A payment's amount is to reach the invoice's \<open>amount_paid\<close> exactly once,
  on every path to \<open>confirmed\<close>. The code applies it twice on two of the three paths:
  \<open>Payment.save\<close> adds the amount when the payment becomes confirmed, and
  \<open>RecordManualPaymentView.post\<close> and \<open>MpesaCallbackView.post\<close> add it again to the
  same invoice object. A manual payment of 5000 on the unpaid invoice 1 leaves
  \<open>amount_paid = 10000\<close>; a successful callback for the pending payment of 6000 leaves
  \<open>amount_paid = 12000\<close>; the landlord's confirmation of that same pending payment
  leaves \<open>amount_paid = 6000\<close>.
\<close>

theorem payment_amount_applied_twice:
  "map amount_paid
     (invoices (snd (RecordManualPaymentView_post ex_env landlord_A (manual_form 5000) ex_db)))
     = [10000, 0] \<and>
   map amount
     (payments (snd (RecordManualPaymentView_post ex_env landlord_A (manual_form 5000) ex_db)))
     = [5000] \<and>
   map amount_paid
     (invoices (snd (MpesaCallbackView_post ex_env
        (Some \<lparr>cb_result_code = Some 0, cb_result_desc = ''ok'', cb_receipt = Some ''QBR1'',
               cb_phone = Some ''254711111111''\<rparr>) ex_pay_db)))
     = [12000, 0] \<and>
   map amount_paid (invoices (snd (ConfirmPaymentView_post ex_env landlord_A 2 ex_pay_db)))
     = [6000, 0]"
  by (simp add: ex_defs view_defs callback_defs)

text \<open>
  Claim C5. A manual payment is to leave the balance non-negative. The view clamps the
  amount to the balance, and then the amount is applied twice (see C1): a manual payment
  of the full balance 18000 on the unpaid invoice 1 leaves \<open>amount_paid = 36000\<close> and the
  balance \<open>- 18000\<close>; a request of 25000 is clamped to 18000, with the warning, and ends
  the same way.
\<close>

theorem manual_payment_balance_negative:
  "map balance
     (invoices (snd (RecordManualPaymentView_post ex_env landlord_A (manual_form 18000) ex_db)))
     = [- 18000, 20300] \<and>
   map amount
     (payments (snd (RecordManualPaymentView_post ex_env landlord_A (manual_form 25000) ex_db)))
     = [18000] \<and>
   map balance
     (invoices (snd (RecordManualPaymentView_post ex_env landlord_A (manual_form 25000) ex_db)))
     = [- 18000, 20300]"
  by (simp add: ex_defs view_defs)

lemma Payment_save_status:
  "Payment_save e self d = (Inr p', d') \<Longrightarrow> pay_status p' = pay_status self \<and> pay_pk p' \<noteq> None"
  by (auto simp: Payment_save_def model_save_payment_def Let_def
           split: sum.splits prod.splits option.splits if_splits)

lemma Payment_save_not_confirmed:
  assumes "pay_status self \<noteq> Pay_confirmed" and "pay_pk self = Some k"
    and "list_ex (\<lambda>r. pay_pk r = Some k) (payments d)"
  shows "Payment_save e self d =
           (Inr self, d\<lparr>payments :=
              map (\<lambda>r. if pay_pk r = Some k then self\<lparr>pay_invoice_obj := None\<rparr> else r) (payments d)\<rparr>)"
proof -
  from assms(3) obtain old where "find (\<lambda>r. pay_pk r = Some k) (payments d) = Some old"
    by (cases "find (\<lambda>r. pay_pk r = Some k) (payments d)") (auto simp: find_None_iff list_ex_iff)
  with assms(1,2) show ?thesis
    by (simp add: Payment_save_def stored_status_def model_save_payment_def)
qed

lemma Invoice_save_frame:
  assumes "Invoice_save e self d = (r, d')"
  shows "payments d' = payments d" and "leases d' = leases d" and "units d' = units d"
    and "properties d' = properties d"
  using assms
  by (auto simp: Invoice_save_def model_save_invoice_def Let_def split: if_splits option.splits)

lemma Payment_save_rows:
  assumes "Payment_save e self d = (Inr p', d')" and "pay_pk self = Some k"
  shows "payments d' =
           map (\<lambda>r. if pay_pk r = Some k then self\<lparr>pay_invoice_obj := None\<rparr> else r) (payments d)"
proof (cases "stored_status self d")
  case (Inl err)
  with assms show ?thesis by (simp add: Payment_save_def)
next
  case (Inr old)
  let ?d1 = "d\<lparr>payments :=
              map (\<lambda>r. if pay_pk r = Some k then self\<lparr>pay_invoice_obj := None\<rparr> else r) (payments d)\<rparr>"
  have m: "model_save_payment e self d = (self, ?d1)"
    using assms(2) by (simp add: model_save_payment_def)
  show ?thesis
  proof (cases "pay_status self = Pay_confirmed \<and> old \<noteq> Some Pay_confirmed")
    case False
    with assms Inr m show ?thesis by (auto simp: Payment_save_def)
  next
    case True
    show ?thesis
    proof (cases "payment_invoice self ?d1")
      case (Inl err)
      with assms Inr m True show ?thesis by (auto simp: Payment_save_def)
    next
      case r2: (Inr iv)
      obtain r3 d3 where sv: "Invoice_save e (iv\<lparr>amount_paid := amount_paid iv + amount self\<rparr>) ?d1 = (r3, d3)"
        by (cases "Invoice_save e (iv\<lparr>amount_paid := amount_paid iv + amount self\<rparr>) ?d1")
      from Invoice_save_frame(1) [OF sv] have p3: "payments d3 = payments ?d1" .
      from assms Inr m True r2 sv have "d' = d3"
        by (auto simp: Payment_save_def split: sum.splits)
      with p3 show ?thesis by simp
    qed
  qed
qed

text \<open>
  Claim C4, as the code has it. \<open>confirm_payment\<close> leaves a confirmed payment and the
  storage unchanged, and \<open>fail_payment\<close> leaves a failed payment and the storage
  unchanged. Every other payment is set to confirmed by \<open>confirm_payment\<close> (so also a
  failed one) and to failed by \<open>fail_payment\<close> (so also a confirmed one, with no change
  to any invoice): the transitions are pending to confirmed, pending to failed, failed to
  confirmed and confirmed to failed.
\<close>

theorem payment_status_transitions:
  "(pay_status p = Pay_confirmed \<longrightarrow> confirm_payment e p d = (Inr p, d)) \<and>
   (pay_status p = Pay_failed \<longrightarrow> fail_payment e p d = (Inr p, d)) \<and>
   (confirm_payment e p d = (Inr p', d') \<longrightarrow> pay_status p' = Pay_confirmed) \<and>
   (pay_status p \<noteq> Pay_confirmed \<and> pay_pk p = Some k \<and> confirm_payment e p d = (Inr p', d') \<longrightarrow>
      (\<forall>r \<in> set (payments d'). pay_pk r = Some k \<longrightarrow> pay_status r = Pay_confirmed)) \<and>
   (pay_status p \<noteq> Pay_failed \<and> pay_pk p = Some k \<and>
    list_ex (\<lambda>r. pay_pk r = Some k) (payments d) \<longrightarrow>
      fail_payment e p d =
        (Inr (p\<lparr>pay_status := Pay_failed\<rparr>),
         d\<lparr>payments :=
              map (\<lambda>r. if pay_pk r = Some k
                        then p\<lparr>pay_status := Pay_failed, pay_invoice_obj := None\<rparr> else r)
                (payments d)\<rparr>))"
proof -
  have a: "pay_status p = Pay_confirmed \<longrightarrow> confirm_payment e p d = (Inr p, d)"
    by (simp add: confirm_payment_def)
  have b: "pay_status p = Pay_failed \<longrightarrow> fail_payment e p d = (Inr p, d)"
    by (simp add: fail_payment_def)
  have c: "confirm_payment e p d = (Inr p', d') \<longrightarrow> pay_status p' = Pay_confirmed"
    by (auto simp: confirm_payment_def split: if_splits dest: Payment_save_status)
  have d: "pay_status p \<noteq> Pay_confirmed \<and> pay_pk p = Some k \<and> confirm_payment e p d = (Inr p', d') \<longrightarrow>
      (\<forall>r \<in> set (payments d'). pay_pk r = Some k \<longrightarrow> pay_status r = Pay_confirmed)"
  proof (intro impI, elim conjE)
    assume st: "pay_status p \<noteq> Pay_confirmed" and pk: "pay_pk p = Some k"
      and ok: "confirm_payment e p d = (Inr p', d')"
    let ?q = "p\<lparr>pay_status := Pay_confirmed, confirmed_at := Some (now e)\<rparr>"
    from st ok have sv: "Payment_save e ?q d = (Inr p', d')" by (simp add: confirm_payment_def)
    from pk have qk: "pay_pk ?q = Some k" by simp
    from Payment_save_rows [OF sv qk]
    have rows: "payments d' =
           map (\<lambda>r. if pay_pk r = Some k then ?q\<lparr>pay_invoice_obj := None\<rparr> else r) (payments d)" .
    show "\<forall>r \<in> set (payments d'). pay_pk r = Some k \<longrightarrow> pay_status r = Pay_confirmed"
      unfolding rows using pk by auto
  qed
  have f: "pay_status p \<noteq> Pay_failed \<and> pay_pk p = Some k \<and>
    list_ex (\<lambda>r. pay_pk r = Some k) (payments d) \<longrightarrow>
      fail_payment e p d =
        (Inr (p\<lparr>pay_status := Pay_failed\<rparr>),
         d\<lparr>payments :=
              map (\<lambda>r. if pay_pk r = Some k
                        then p\<lparr>pay_status := Pay_failed, pay_invoice_obj := None\<rparr> else r)
                (payments d)\<rparr>)"
    using Payment_save_not_confirmed [of "p\<lparr>pay_status := Pay_failed\<rparr>" k d e]
    by (simp add: fail_payment_def)
  from a b c d f show ?thesis by blast
qed

text \<open>
  Claim C4 as stated fails: the failed payment 1 becomes confirmed under
  \<open>confirm_payment\<close> (and its 4000 reach the invoice), and a confirmed payment becomes
  failed under \<open>fail_payment\<close>.
\<close>

theorem failed_payment_gets_confirmed:
  "pay_status ex_failed_A = Pay_failed \<and>
   map pay_status (payments ex_pay_db) = [Pay_failed, Pay_pending, Pay_pending] \<and>
   map pay_status (payments (snd (confirm_payment ex_env ex_failed_A ex_pay_db)))
     = [Pay_confirmed, Pay_pending, Pay_pending] \<and>
   map amount_paid (invoices (snd (confirm_payment ex_env ex_failed_A ex_pay_db))) = [4000, 0] \<and>
   map pay_status
     (payments (snd (fail_payment ex_env (ex_pending_A\<lparr>pay_status := Pay_confirmed\<rparr>)
        (ex_pay_db\<lparr>payments := [ex_failed_A, ex_pending_A\<lparr>pay_status := Pay_confirmed\<rparr>,
                                  ex_pending_B]\<rparr>))))
     = [Pay_failed, Pay_failed, Pay_pending]"
  by (simp add: ex_defs view_defs)

theorem payment_status_transitions_witness:
  "confirm_payment ex_env (ex_pending_A\<lparr>pay_status := Pay_confirmed\<rparr>) ex_pay_db
     = (Inr (ex_pending_A\<lparr>pay_status := Pay_confirmed\<rparr>), ex_pay_db) \<and>
   fail_payment ex_env ex_failed_A ex_pay_db = (Inr ex_failed_A, ex_pay_db) \<and>
   map pay_status (payments (snd (confirm_payment ex_env ex_failed_A ex_pay_db)))
     = [Pay_confirmed, Pay_pending, Pay_pending] \<and>
   list_all (\<lambda>r. pay_status r = Pay_confirmed)
     (filter (\<lambda>r. pay_pk r = Some 1)
        (payments (snd (confirm_payment ex_env ex_failed_A ex_pay_db)))) \<and>
   map pay_status (payments (snd (fail_payment ex_env ex_pending_A ex_pay_db)))
     = [Pay_failed, Pay_failed, Pay_pending]"
proof -
  let ?iv = "ex_invoice\<lparr>amount_paid := 4000, inv_status := Inv_partial\<rparr>"
  let ?p = "ex_failed_A\<lparr>pay_status := Pay_confirmed, confirmed_at := Some 5000,
                         pay_invoice_obj := Some ?iv\<rparr>"
  let ?d = "ex_pay_db\<lparr>payments := [ex_failed_A\<lparr>pay_status := Pay_confirmed,
                                                  confirmed_at := Some 5000\<rparr>,
                                      ex_pending_A, ex_pending_B],
                        invoices := [?iv, ex_invoice_B]\<rparr>"
  have h1: "pay_status (ex_pending_A\<lparr>pay_status := Pay_confirmed\<rparr>) = Pay_confirmed" by simp
  have h2: "pay_status ex_failed_A = Pay_failed" by (simp add: ex_failed_A_def)
  have h3: "pay_status ex_pending_A \<noteq> Pay_failed \<and> pay_pk ex_pending_A = Some 2 \<and>
            list_ex (\<lambda>r. pay_pk r = Some 2) (payments ex_pay_db)"
    by (simp add: ex_defs)
  have h4: "pay_status ex_failed_A \<noteq> Pay_confirmed \<and> pay_pk ex_failed_A = Some 1 \<and>
            confirm_payment ex_env ex_failed_A ex_pay_db = (Inr ?p, ?d)"
    by (simp add: ex_defs view_defs)
  from payment_status_transitions [of "ex_pending_A\<lparr>pay_status := Pay_confirmed\<rparr>" ex_env
          ex_pay_db "ex_pending_A" ex_pay_db 2] h1
  have c1: "confirm_payment ex_env (ex_pending_A\<lparr>pay_status := Pay_confirmed\<rparr>) ex_pay_db
     = (Inr (ex_pending_A\<lparr>pay_status := Pay_confirmed\<rparr>), ex_pay_db)" by blast
  from payment_status_transitions [of ex_failed_A ex_env ex_pay_db ?p ?d 1] h2 h4
  have c2: "fail_payment ex_env ex_failed_A ex_pay_db = (Inr ex_failed_A, ex_pay_db)"
    and c5: "\<forall>r \<in> set (payments ?d). pay_pk r = Some 1 \<longrightarrow> pay_status r = Pay_confirmed"
    by blast+
  from payment_status_transitions [of ex_pending_A ex_env ex_pay_db ex_pending_A ex_pay_db 2] h3
  have c3: "fail_payment ex_env ex_pending_A ex_pay_db =
        (Inr (ex_pending_A\<lparr>pay_status := Pay_failed\<rparr>),
         ex_pay_db\<lparr>payments :=
              map (\<lambda>r. if pay_pk r = Some 2
                        then ex_pending_A\<lparr>pay_status := Pay_failed, pay_invoice_obj := None\<rparr>
                        else r)
                (payments ex_pay_db)\<rparr>)" by blast
  have c4: "map pay_status (payments (snd (fail_payment ex_env ex_pending_A ex_pay_db)))
     = [Pay_failed, Pay_failed, Pay_pending]"
    unfolding c3 by (simp add: ex_defs)
  have c6: "snd (confirm_payment ex_env ex_failed_A ex_pay_db) = ?d" using h4 by simp
  have c7: "map pay_status (payments ?d) = [Pay_confirmed, Pay_pending, Pay_pending]"
    by (simp add: ex_defs)
  from c5 have c8: "list_all (\<lambda>r. pay_status r = Pay_confirmed)
                      (filter (\<lambda>r. pay_pk r = Some 1) (payments ?d))"
    by (simp add: list_all_iff)
  from c1 c2 c4 c6 c7 c8 show ?thesis by simp
qed

section \<open>Saving under the storage's integrity constraints\<close>

lemma distinct_map_eq:
  "distinct (map f xs) \<Longrightarrow> x \<in> set xs \<Longrightarrow> y \<in> set xs \<Longrightarrow> f x = f y \<Longrightarrow> x = y"
  by (meson distinct_map inj_on_def)










lemma invoice_keys_ok_cong: "invoices d' = invoices d \<Longrightarrow> invoice_keys_ok d' = invoice_keys_ok d"
  by (simp add: invoice_keys_ok_def)




section \<open>Gateway callback processor: properties\<close>



section \<open>Invoice ledger: one invoice per lease and billing month\<close>

lemma fold_max_bounds:
  "m \<le> fold (\<lambda>k m. case k of None \<Rightarrow> m | Some n \<Rightarrow> max n m) ks (m::nat) \<and>
   (\<forall>n. Some n \<in> set ks \<longrightarrow> n \<le> fold (\<lambda>k m. case k of None \<Rightarrow> m | Some n \<Rightarrow> max n m) ks m)"
proof (induction ks arbitrary: m)
  case Nil
  then show ?case by simp
next
  case (Cons k ks)
  show ?case
  proof (cases k)
    case None
    with Cons [of m] show ?thesis by simp
  next
    case (Some a)
    from Cons [of "max a m"] Some show ?thesis
      by (auto simp: max_def split: if_splits intro: order_trans)
  qed
qed

lemma fresh_pk_fresh: "Some (fresh_pk ks) \<notin> set ks"
proof
  assume "Some (fresh_pk ks) \<in> set ks"
  with fold_max_bounds [of 0 ks] have "fresh_pk ks \<le> fold (\<lambda>k m. case k of None \<Rightarrow> m | Some n \<Rightarrow> max n m) ks 0"
    by blast
  then show False by (simp add: fresh_pk_def)
qed

lemma distinct_replace:
  assumes "distinct (map pk xs)" and "distinct (map g xs)"
    and "\<forall>r \<in> set xs. pk r \<noteq> k \<longrightarrow> g r \<noteq> g y"
  shows "distinct (map g (map (\<lambda>r. if pk r = k then y else r) xs))"
  using assms
proof (induction xs)
  case Nil
  then show ?case by simp
next
  case (Cons x xs)
  then have ih: "distinct (map g (map (\<lambda>r. if pk r = k then y else r) xs))" by simp
  show ?case
  proof (cases "pk x = k")
    case True
    with Cons.prems(1) have "\<forall>r \<in> set xs. pk r \<noteq> k"
      by (metis distinct.simps(2) image_eqI list.simps(9) list.set_map)
    with Cons.prems(3) have "g y \<notin> set (map g (map (\<lambda>r. if pk r = k then y else r) xs))"
      by auto
    with True ih show ?thesis by simp
  next
    case False
    with Cons.prems(3) have ne: "g x \<noteq> g y" by simp
    from Cons.prems(2) have "g x \<notin> g ` set xs" by simp
    have "g x \<notin> set (map g (map (\<lambda>r. if pk r = k then y else r) xs))"
    proof
      assume "g x \<in> set (map g (map (\<lambda>r. if pk r = k then y else r) xs))"
      then obtain r where r: "r \<in> set xs" and eq: "g x = g (if pk r = k then y else r)"
        by auto
      show False
      proof (cases "pk r = k")
        case True
        with eq ne show False by simp
      next
        case False
        with eq r \<open>g x \<notin> g ` set xs\<close> show False by auto
      qed
    qed
    with \<open>pk x \<noteq> k\<close> ih show ?thesis by simp
  qed
qed

lemma map_pk_replace:
  "pk y = k \<Longrightarrow> map pk (map (\<lambda>r. if pk r = k then y else r) xs) = map pk xs"
  by (induction xs) auto

lemma model_save_invoice_table_ok:
  assumes ok: "invoice_table_ok d"
  shows "invoice_table_ok (snd (model_save_invoice self d))"
proof (cases "list_ex (inv_conflict self) (invoices d)")
  case True
  with ok show ?thesis by (simp add: model_save_invoice_def)
next
  case False
  let ?g = "\<lambda>r. (inv_lease r, billing_month r)"
  from ok have dk: "distinct (map inv_pk (invoices d))"
    and nn: "None \<notin> set (map inv_pk (invoices d))"
    and dp: "distinct (map ?g (invoices d))"
    by (simp_all add: invoice_table_ok_def)
  from False have nc: "\<forall>r \<in> set (invoices d). inv_pk r \<noteq> inv_pk self \<longrightarrow> ?g r \<noteq> ?g self"
    by (auto simp: list_ex_iff inv_conflict_def)
  show ?thesis
  proof (cases "inv_pk self")
    case None
    let ?s = "self\<lparr>inv_pk := Some (fresh_pk (map inv_pk (invoices d)))\<rparr>"
    from nn None nc have "?g self \<notin> set (map ?g (invoices d))" by force
    then have "distinct (map ?g (invoices d @ [?s]))" using dp by simp
    moreover have "distinct (map inv_pk (invoices d @ [?s]))"
      using dk fresh_pk_fresh [of "map inv_pk (invoices d)"] by simp
    moreover have "None \<notin> set (map inv_pk (invoices d @ [?s]))" using nn by simp
    ultimately show ?thesis
      using False None by (simp add: model_save_invoice_def invoice_table_ok_def Let_def)
  next
    case (Some k)
    show ?thesis
    proof (cases "list_ex (\<lambda>r. inv_pk r = Some k) (invoices d)")
      case True
      let ?xs = "map (\<lambda>r. if inv_pk r = Some k then self else r) (invoices d)"
      have a: "map inv_pk ?xs = map inv_pk (invoices d)"
        by (rule map_pk_replace) (rule Some)
      have b: "distinct (map ?g ?xs)"
        by (rule distinct_replace [OF dk dp]) (use nc Some in auto)
      have r: "snd (model_save_invoice self d) = d\<lparr>invoices := ?xs\<rparr>"
        using False Some True by (simp add: model_save_invoice_def)
      have sel: "invoices (d\<lparr>invoices := ?xs\<rparr>) = ?xs" by simp
      show ?thesis
        unfolding r using dk nn b by (simp only: invoice_table_ok_def sel a) simp
    next
      case nex: False
      then have fresh: "Some k \<notin> set (map inv_pk (invoices d))" by (auto simp: list_ex_iff)
      then have "\<forall>r \<in> set (invoices d). inv_pk r \<noteq> inv_pk self" using Some by force
      with nc have "?g self \<notin> set (map ?g (invoices d))" by force
      then have "distinct (map ?g (invoices d @ [self]))" using dp by simp
      moreover have "distinct (map inv_pk (invoices d @ [self]))" using dk fresh Some by simp
      moreover have "None \<notin> set (map inv_pk (invoices d @ [self]))" using nn Some by simp
      ultimately show ?thesis
        using False Some nex by (simp add: model_save_invoice_def invoice_table_ok_def)
    qed
  qed
qed

lemma Invoice_save_table_ok:
  "invoice_table_ok d \<Longrightarrow> invoice_table_ok (snd (Invoice_save e self d))"
  by (simp add: Invoice_save_def Let_def model_save_invoice_table_ok)

lemma filter_table_ok:
  "invoice_table_ok d \<Longrightarrow> invoice_table_ok (d\<lparr>invoices := filter Q (invoices d)\<rparr>)"
  by (auto simp: invoice_table_ok_def distinct_map_filter)

lemma table_ok_cong: "invoices d' = invoices d \<Longrightarrow> invoice_table_ok d \<Longrightarrow> invoice_table_ok d'"
  by (simp add: invoice_table_ok_def)

lemma run_log_table_ok: "invoice_table_ok d \<Longrightarrow> invoice_table_ok (run_log ops d)"
  by (rule run_log_preserve [where P = invoice_table_ok, OF table_ok_cong Invoice_save_table_ok
         filter_table_ok])

lemma objects_create_invoice_ok:
  assumes "objects_create_invoice e k bm due r w g ot d = (Inr iv, d')"
  shows "d' = d\<lparr>invoices := invoices d @ [iv]\<rparr>"
    and "inv_lease iv = k" and "billing_month iv = bm" and "rent_amount iv = r"
    and "water_amount iv = w" and "garbage_amount iv = g" and "other_charges iv = ot"
    and "amount_paid iv = 0" and "total_amount iv = r + w + g + ot"
    and "due = Some (due_date iv)"
  using assms
  by (auto simp: objects_create_invoice_def Invoice_save_def model_save_invoice_def Let_def
        update_status_eq split: option.splits if_splits)

lemma objects_create_invoice_error:
  "objects_create_invoice e k bm due r w g ot d = (Inl err, d') \<Longrightarrow> d' = d"
  by (auto simp: objects_create_invoice_def split: option.splits dest: Invoice_save_error)

lemma atomic_Inr: "atomic f d = (Inr x, d') \<longleftrightarrow> f d = (Inr x, d')"
  by (auto simp: atomic_def split: prod.splits sum.splits)

lemma lease_owned_by_cong:
  "units d' = units d \<Longrightarrow> properties d' = properties d \<Longrightarrow> lease_owned_by d' l ls = lease_owned_by d l ls"
  by (simp add: lease_owned_by_def)

lemma get_lease_or_404_cong:
  "leases d' = leases d \<Longrightarrow> units d' = units d \<Longrightarrow> properties d' = properties d \<Longrightarrow>
   get_lease_or_404 d' l k = get_lease_or_404 d l k"
  by (simp add: get_lease_or_404_def lease_owned_by_def)

lemma get_lease_or_404_pk: "get_lease_or_404 d l k = Inr ls \<Longrightarrow> lease_pk ls = k"
  by (auto simp: get_lease_or_404_def find_Some_iff split: option.splits)

text \<open>
  Claim C6. \<open>InvoiceCreateView.post\<close> answers a request for a lease and billing month
  that already have an invoice with the duplicate error and leaves the storage as it was;
  so after a successful creation a second request for the same pair, whatever its other
  fields, fails that way, the first invoice is still stored and it is the only one for
  the pair. Below the view, the storage refuses a second row for the pair
  (\<open>unique_together\<close>), and no sequence of requests ever leads to two invoices for one
  pair.
\<close>

theorem duplicate_invoice_rejected:
  "(landlord_gate rq = None \<and> get_lease_or_404 d (req_landlord rq) (f_lease f) = Inr ls \<and>
    f_billing_month f = Some bm \<and> invoice_exists d (f_lease f) bm \<longrightarrow>
      InvoiceCreateView_post e rq f d = (Inl DuplicateInvoice, d)) \<and>
   (InvoiceCreateView_post e rq f d = (Inr iv, d1) \<and>
    f_lease f' = f_lease f \<and> f_billing_month f' = f_billing_month f \<longrightarrow>
      InvoiceCreateView_post e' rq f' d1 = (Inl DuplicateInvoice, d1) \<and>
      iv \<in> set (invoices d1) \<and>
      length (filter (\<lambda>r. inv_lease r = f_lease f \<and> Some (billing_month r) = f_billing_month f)
                (invoices d1)) = 1) \<and>
   (invoice_table_ok d \<and> inv_pk self = None \<and>
    invoice_exists d (inv_lease self) (billing_month self) \<longrightarrow>
      model_save_invoice self d = (Inl IntegrityError, d)) \<and>
   (invoice_table_ok d \<longrightarrow>
      distinct (map (\<lambda>r. (inv_lease r, billing_month r)) (invoices (run_log ops d))))"
proof -
  have dup: "InvoiceCreateView_post e rq f d = (Inl DuplicateInvoice, d)"
    if "landlord_gate rq = None" "get_lease_or_404 d (req_landlord rq) (f_lease f) = Inr ls"
       "f_billing_month f = Some bm" "invoice_exists d (f_lease f) bm" for e rq f d ls bm
    using that get_lease_or_404_pk [OF that(2)]
    by (simp add: InvoiceCreateView_post_def atomic_def)
  have a: "landlord_gate rq = None \<and> get_lease_or_404 d (req_landlord rq) (f_lease f) = Inr ls \<and>
    f_billing_month f = Some bm \<and> invoice_exists d (f_lease f) bm \<longrightarrow>
      InvoiceCreateView_post e rq f d = (Inl DuplicateInvoice, d)"
    using dup by blast
  have b: "InvoiceCreateView_post e rq f d = (Inr iv, d1) \<and>
    f_lease f' = f_lease f \<and> f_billing_month f' = f_billing_month f \<longrightarrow>
      InvoiceCreateView_post e' rq f' d1 = (Inl DuplicateInvoice, d1) \<and>
      iv \<in> set (invoices d1) \<and>
      length (filter (\<lambda>r. inv_lease r = f_lease f \<and> Some (billing_month r) = f_billing_month f)
                (invoices d1)) = 1"
  proof (intro impI, elim conjE)
    assume ok: "InvoiceCreateView_post e rq f d = (Inr iv, d1)"
      and fl: "f_lease f' = f_lease f" and fb: "f_billing_month f' = f_billing_month f"
    from ok have gate: "landlord_gate rq = None"
      by (auto simp: InvoiceCreateView_post_def atomic_Inr split: option.splits)
    from ok gate obtain ls where ls: "get_lease_or_404 d (req_landlord rq) (f_lease f) = Inr ls"
      by (auto simp: InvoiceCreateView_post_def atomic_Inr split: sum.splits)
    from ok gate ls obtain bm where bm: "f_billing_month f = Some bm"
      by (auto simp: InvoiceCreateView_post_def atomic_Inr split: option.splits)
    have lk: "lease_pk ls = f_lease f" by (rule get_lease_or_404_pk [OF ls])
    from ok gate ls bm have nex: "\<not> invoice_exists d (f_lease f) bm"
      by (auto simp: InvoiceCreateView_post_def atomic_Inr lk split: if_splits)
    from ok gate ls bm nex obtain r w g ot where
      cr: "objects_create_invoice e (f_lease f) bm (f_due_date f) r w g ot d = (Inr iv, d1)"
      by (auto simp: InvoiceCreateView_post_def atomic_Inr lk split: option.splits)
    note c = objects_create_invoice_ok [OF cr]
    have inv1: "invoices d1 = invoices d @ [iv]" by (subst c(1)) simp
    have fr: "leases d1 = leases d" "units d1 = units d" "properties d1 = properties d"
      by (subst c(1), simp)+
    have ls1: "get_lease_or_404 d1 (req_landlord rq) (f_lease f') = Inr ls"
      using ls fl get_lease_or_404_cong [OF fr] by simp
    have ex1: "invoice_exists d1 (f_lease f') bm"
      using c(2,3) fl by (simp add: invoice_exists_def inv1)
    have first: "InvoiceCreateView_post e' rq f' d1 = (Inl DuplicateInvoice, d1)"
      by (rule dup [OF gate ls1 _ ex1]) (simp add: fb bm)
    from nex have none: "filter (\<lambda>r. inv_lease r = f_lease f \<and> Some (billing_month r) = f_billing_month f)
                (invoices d) = []"
      by (auto simp: invoice_exists_def list_ex_iff filter_empty_conv bm)
    have cnt: "length (filter (\<lambda>r. inv_lease r = f_lease f \<and> Some (billing_month r) = f_billing_month f)
                (invoices d1)) = 1"
      using none c(2,3) by (simp add: inv1 bm)
    from first cnt inv1
    show "InvoiceCreateView_post e' rq f' d1 = (Inl DuplicateInvoice, d1) \<and>
      iv \<in> set (invoices d1) \<and>
      length (filter (\<lambda>r. inv_lease r = f_lease f \<and> Some (billing_month r) = f_billing_month f)
                (invoices d1)) = 1"
      by simp
  qed
  have c: "invoice_table_ok d \<and> inv_pk self = None \<and>
    invoice_exists d (inv_lease self) (billing_month self) \<longrightarrow>
      model_save_invoice self d = (Inl IntegrityError, d)"
  proof (intro impI, elim conjE)
    assume ok: "invoice_table_ok d" and n: "inv_pk self = None"
      and ex: "invoice_exists d (inv_lease self) (billing_month self)"
    from ex obtain r where r: "r \<in> set (invoices d)" "inv_lease r = inv_lease self"
      "billing_month r = billing_month self"
      by (auto simp: invoice_exists_def list_ex_iff)
    from ok r(1) have "inv_pk r \<noteq> None" by (force simp: invoice_table_ok_def)
    with r n have "list_ex (inv_conflict self) (invoices d)"
      by (auto simp: list_ex_iff inv_conflict_def)
    then show "model_save_invoice self d = (Inl IntegrityError, d)"
      by (simp add: model_save_invoice_def)
  qed
  have dd: "invoice_table_ok d \<longrightarrow>
      distinct (map (\<lambda>r. (inv_lease r, billing_month r)) (invoices (run_log ops d)))"
    using run_log_table_ok [of d ops] by (simp add: invoice_table_ok_def)
  from a b c dd show ?thesis by blast
qed

theorem duplicate_invoice_rejected_witness:
  "fst (InvoiceCreateView_post ex_env landlord_A
          \<lparr>f_lease = 1, f_billing_month = Some 131, f_due_date = Some 136,
           f_rent_amount = Some 17300, f_water_amount = Some 500,
           f_garbage_amount = Some 200, f_other_charges = Some 0\<rparr> ex_db)
     = Inr (ex_invoice\<lparr>inv_pk := Some 3, invoice_number := ''INV-202611-F'',
                        billing_month := 131, due_date := 136\<rparr>) \<and>
   InvoiceCreateView_post ex_env landlord_A
          \<lparr>f_lease = 1, f_billing_month = Some 131, f_due_date = Some 140,
           f_rent_amount = Some 1, f_water_amount = Some 2,
           f_garbage_amount = Some 3, f_other_charges = Some 4\<rparr>
     (snd (InvoiceCreateView_post ex_env landlord_A
          \<lparr>f_lease = 1, f_billing_month = Some 131, f_due_date = Some 136,
           f_rent_amount = Some 17300, f_water_amount = Some 500,
           f_garbage_amount = Some 200, f_other_charges = Some 0\<rparr> ex_db))
     = (Inl DuplicateInvoice,
        ex_db\<lparr>invoices := [ex_invoice, ex_invoice_B,
                    ex_invoice\<lparr>inv_pk := Some 3, invoice_number := ''INV-202611-F'',
                        billing_month := 131, due_date := 136\<rparr>]\<rparr>) \<and>
   InvoiceCreateView_post ex_env landlord_A
          \<lparr>f_lease = 1, f_billing_month = Some 100, f_due_date = Some 105,
           f_rent_amount = Some 17300, f_water_amount = Some 500,
           f_garbage_amount = Some 200, f_other_charges = Some 0\<rparr> ex_db
     = (Inl DuplicateInvoice, ex_db) \<and>
   model_save_invoice (ex_invoice\<lparr>inv_pk := None, invoice_number := ''INV-202611-F''\<rparr>) ex_db
     = (Inl IntegrityError, ex_db)"
proof -
  let ?f = "\<lparr>f_lease = 1, f_billing_month = Some 131, f_due_date = Some 136,
           f_rent_amount = Some 17300, f_water_amount = Some 500,
           f_garbage_amount = Some 200, f_other_charges = Some 0\<rparr>"
  let ?f' = "\<lparr>f_lease = 1, f_billing_month = Some 131, f_due_date = Some 140,
           f_rent_amount = Some 1, f_water_amount = Some 2,
           f_garbage_amount = Some 3, f_other_charges = Some 4\<rparr>"
  let ?g = "\<lparr>f_lease = 1, f_billing_month = Some 100, f_due_date = Some 105,
           f_rent_amount = Some 17300, f_water_amount = Some 500,
           f_garbage_amount = Some 200, f_other_charges = Some 0\<rparr>"
  let ?iv = "ex_invoice\<lparr>inv_pk := Some 3, invoice_number := ''INV-202611-F'',
                        billing_month := 131, due_date := 136\<rparr>"
  let ?d1 = "ex_db\<lparr>invoices := [ex_invoice, ex_invoice_B, ?iv]\<rparr>"
  let ?ls = "\<lparr>lease_pk = 1, lease_unit = 1, lease_status = Lease_active,
                 lease_rent_amount = 17300\<rparr>"
  let ?self = "ex_invoice\<lparr>inv_pk := None, invoice_number := ''INV-202611-F''\<rparr>"
  have run: "InvoiceCreateView_post ex_env landlord_A ?f ex_db = (Inr ?iv, ?d1)"
    by (simp add: InvoiceCreateView_post_def atomic_def landlord_gate_def get_lease_or_404_def
          lease_owned_by_def invoice_exists_def objects_create_invoice_def Invoice_save_def
          model_save_invoice_def update_status_def inv_conflict_def fresh_pk_def Let_def ex_defs)
  have h1: "landlord_gate landlord_A = None \<and>
            get_lease_or_404 ex_db (req_landlord landlord_A) (f_lease ?g) = Inr ?ls \<and>
            f_billing_month ?g = Some 100 \<and> invoice_exists ex_db (f_lease ?g) 100"
    by (simp add: landlord_gate_def get_lease_or_404_def lease_owned_by_def invoice_exists_def ex_defs)
  have h3: "invoice_table_ok ex_db \<and> inv_pk ?self = None \<and>
            invoice_exists ex_db (inv_lease ?self) (billing_month ?self)"
    by (simp add: invoice_table_ok_def invoice_exists_def ex_defs)
  from duplicate_invoice_rejected [of landlord_A ex_db ?g ?ls 100 ex_env ?iv ?d1 ?f' ex_env ?self "[]"]
    h1 h3
  have c1: "InvoiceCreateView_post ex_env landlord_A ?g ex_db = (Inl DuplicateInvoice, ex_db)"
    and c3: "model_save_invoice ?self ex_db = (Inl IntegrityError, ex_db)"
    by blast+
  from duplicate_invoice_rejected [of landlord_A ex_db ?f ?ls 131 ex_env ?iv ?d1 ?f' ex_env ?self "[]"]
    run
  have c2: "InvoiceCreateView_post ex_env landlord_A ?f' ?d1 = (Inl DuplicateInvoice, ?d1)"
    by simp
  from run c1 c2 c3 show ?thesis by simp
qed

section \<open>Invoice ledger: the monthly batch\<close>





lemma generate_loop_error:
  "generate_loop e bm due ls cs d = (Inl err, d') \<Longrightarrow>
   \<exists>new. d' = d\<lparr>invoices := invoices d @ new\<rparr>"
proof (induction e bm due ls cs d rule: generate_loop.induct)
  case (1 e bm due created skipped d)
  then show ?case by simp
next
  case (2 e bm due ls rest created skipped d)
  show ?case
  proof (cases "invoice_exists d (lease_pk ls) bm")
    case True
    with 2 show ?thesis by simp
  next
    case False
    show ?thesis
    proof (cases "find (\<lambda>u. unit_pk u = lease_unit ls) (units d)")
      case None
      with False "2.prems" have "d' = d" by simp
      then show ?thesis by (intro exI [of _ "[]"]) simp
    next
      case (Some u)
      obtain r d1 where c: "objects_create_invoice e (lease_pk ls) bm due (lease_rent_amount ls)
                        (get_water_charge u None) (garbage_fee u) 0 d = (r, d1)"
        by (cases "objects_create_invoice e (lease_pk ls) bm due (lease_rent_amount ls)
                        (get_water_charge u None) (garbage_fee u) 0 d")
      show ?thesis
      proof (cases r)
        case (Inl err')
        with False Some c "2.prems" objects_create_invoice_error [of e _ bm due _ _ _ 0 d err' d1]
        have "d' = d" by simp
        then show ?thesis by (intro exI [of _ "[]"]) simp
      next
        case (Inr iv)
        with False Some c "2.prems"
        have rest: "generate_loop e bm due rest (Suc created, skipped) d1 = (Inl err, d')" by simp
        from "2.IH"(2) [OF False Some c [symmetric, unfolded Inr] refl rest]
        obtain new where n: "d' = d1\<lparr>invoices := invoices d1 @ new\<rparr>" by blast
        from objects_create_invoice_ok(1) [OF c [unfolded Inr]]
        have d1: "d1 = d\<lparr>invoices := invoices d @ [iv]\<rparr>" .
        have "d' = d\<lparr>invoices := invoices d @ (iv # new)\<rparr>"
          unfolding n by (subst (1 2) d1) simp
        then show ?thesis by blast
      qed
    qed
  qed
qed











section \<open>Tenancy guard: properties\<close>

lemma lease_owner_unique:
  assumes "ownership_keys_ok d" and "lease_owned_by d (Some a) ls" and "lease_owned_by d (Some b) ls"
  shows "a = b"
proof -
  from assms(1) have dp: "distinct (map prop_pk (properties d))"
    and du: "distinct (map unit_pk (units d))" by (simp_all add: ownership_keys_ok_def)
  from assms(2) obtain u p where u: "u \<in> set (units d)" "unit_pk u = lease_unit ls"
    and p: "p \<in> set (properties d)" "prop_pk p = unit_property u" "prop_landlord p = a"
    by (auto simp: lease_owned_by_def list_ex_iff)
  from assms(3) obtain u' p' where u': "u' \<in> set (units d)" "unit_pk u' = lease_unit ls"
    and p': "p' \<in> set (properties d)" "prop_pk p' = unit_property u'" "prop_landlord p' = b"
    by (auto simp: lease_owned_by_def list_ex_iff)
  from u u' have "u = u'" by (auto intro: distinct_map_eq [OF du])
  with p p' have "p = p'" by (auto intro: distinct_map_eq [OF dp])
  with p(3) p'(3) show ?thesis by simp
qed

lemma invoice_owner_unique:
  assumes "ownership_keys_ok d" and "invoice_owned_by d (Some a) iv" and "invoice_owned_by d (Some b) iv"
  shows "a = b"
proof -
  from assms(1) have dl: "distinct (map lease_pk (leases d))" by (simp add: ownership_keys_ok_def)
  from assms(2) obtain ls where ls: "ls \<in> set (leases d)" "lease_pk ls = inv_lease iv"
    "lease_owned_by d (Some a) ls" by (auto simp: invoice_owned_by_def list_ex_iff)
  from assms(3) obtain ls' where ls': "ls' \<in> set (leases d)" "lease_pk ls' = inv_lease iv"
    "lease_owned_by d (Some b) ls'" by (auto simp: invoice_owned_by_def list_ex_iff)
  from ls ls' have "ls = ls'" by (auto intro: distinct_map_eq [OF dl])
  with ls(3) ls'(3) show ?thesis by (auto intro: lease_owner_unique [OF assms(1)])
qed

lemma no_owner_None: "\<not> invoice_owned_by d None iv"
  by (auto simp: invoice_owned_by_def lease_owned_by_def list_ex_iff)

lemma foreign_invoice_404:
  assumes ok: "ownership_keys_ok d" and mem: "iv \<in> set (invoices d)" and pk: "inv_pk iv = Some k"
    and own: "invoice_owned_by d (Some b) iv" and other: "req_landlord rq \<noteq> Some b"
  shows "get_invoice_or_404 d (req_landlord rq) k = Inl Http404"
proof -
  from ok have di: "distinct (map inv_pk (invoices d))" by (simp add: ownership_keys_ok_def)
  have "\<not> (inv_pk r = Some k \<and> invoice_owned_by d (req_landlord rq) r)"
    if r: "r \<in> set (invoices d)" for r
  proof
    assume a: "inv_pk r = Some k \<and> invoice_owned_by d (req_landlord rq) r"
    with r mem pk have eq: "r = iv" by (auto intro: distinct_map_eq [OF di])
    show False
    proof (cases "req_landlord rq")
      case None
      with a show False by (simp add: no_owner_None)
    next
      case (Some a')
      with a eq own have "a' = b" by (auto intro: invoice_owner_unique [OF ok])
      with Some other show False by simp
    qed
  qed
  then have "find (\<lambda>r. inv_pk r = Some k \<and> invoice_owned_by d (req_landlord rq) r) (invoices d) = None"
    by (simp add: find_None_iff)
  then show ?thesis by (simp add: get_invoice_or_404_def)
qed

lemma foreign_payment_404:
  assumes ok: "ownership_keys_ok d" and mem: "iv \<in> set (invoices d)" and pk: "inv_pk iv = Some k"
    and own: "invoice_owned_by d (Some b) iv" and other: "req_landlord rq \<noteq> Some b"
    and pays: "\<forall>p \<in> set (payments d). pay_pk p = Some j \<longrightarrow> pay_invoice p = k"
  shows "get_payment_or_404 d (req_landlord rq) j = Inl Http404"
proof -
  from ok have di: "distinct (map inv_pk (invoices d))" by (simp add: ownership_keys_ok_def)
  have "\<not> (pay_pk p = Some j \<and> payment_owned_by d (req_landlord rq) p)"
    if p: "p \<in> set (payments d)" for p
  proof
    assume a: "pay_pk p = Some j \<and> payment_owned_by d (req_landlord rq) p"
    with p pays have pi: "pay_invoice p = k" by blast
    from a obtain r where r: "r \<in> set (invoices d)" "inv_pk r = Some (pay_invoice p)"
      "invoice_owned_by d (req_landlord rq) r"
      by (auto simp: payment_owned_by_def list_ex_iff)
    with pi mem pk have eq: "r = iv" by (auto intro: distinct_map_eq [OF di])
    show False
    proof (cases "req_landlord rq")
      case None
      with r show False by (simp add: no_owner_None)
    next
      case (Some a')
      with r eq own have "a' = b" by (auto intro: invoice_owner_unique [OF ok])
      with Some other show False by simp
    qed
  qed
  then have "find (\<lambda>r. pay_pk r = Some j \<and> payment_owned_by d (req_landlord rq) r) (payments d) = None"
    by (simp add: find_None_iff)
  then show ?thesis by (simp add: get_payment_or_404_def)
qed

text \<open>
  Claim C2, as the code has it. For an invoice that belongs to landlord \<open>b\<close>, a
  request by a landlord other than \<open>b\<close> through the landlord views (invoice detail,
  update and delete, manual payment, and detail, confirmation and deletion of the
  invoice's payments) finds no row in the landlord-scoped lookup: it is answered with 404
  and the storage is unchanged, whatever primary key is asked for. The invoice and payment
  lists hold only rows of the requesting landlord. A logged-in user who is not a landlord
  is answered with the access-denied error. The M-Pesa initiation view and the gateway
  callback take no landlord: see the next theorem.
\<close>

theorem landlord_views_reject_foreign_invoice:
  assumes "ownership_keys_ok d" and "iv \<in> set (invoices d)" and "inv_pk iv = Some k"
    and "invoice_owned_by d (Some b) iv"
    and "landlord_gate rq = None" and "req_landlord rq \<noteq> Some b"
  shows "InvoiceDetailView_get rq k d = (Inl Http404, d) \<and>
         InvoiceUpdateView_post e rq k f d = (Inl Http404, d) \<and>
         InvoiceDeleteView_post rq k d = (Inl Http404, d) \<and>
         (pf_invoice pf = Some k \<longrightarrow>
            RecordManualPaymentView_post e rq pf d = (Inl Http404, d) \<or>
            RecordManualPaymentView_post e rq pf d = (Inl MissingFields, d)) \<and>
         ((\<forall>p \<in> set (payments d). pay_pk p = Some j \<longrightarrow> pay_invoice p = k) \<longrightarrow>
            PaymentDetailView_get rq j d = (Inl Http404, d) \<and>
            ConfirmPaymentView_post e rq j d = (Inl Http404, d) \<and>
            DeletePaymentView_post rq j d = (Inl Http404, d)) \<and>
         InvoiceListView_get rq d = Inr (landlord_invoices d (req_landlord rq)) \<and>
         PaymentListView_get rq d = Inr (landlord_payments d (req_landlord rq)) \<and>
         iv \<notin> set (landlord_invoices d (req_landlord rq)) \<and>
         list_all (invoice_owned_by d (req_landlord rq)) (landlord_invoices d (req_landlord rq)) \<and>
         list_all (payment_owned_by d (req_landlord rq)) (landlord_payments d (req_landlord rq)) \<and>
         (is_authenticated rq' \<and> \<not> is_landlord rq' \<longrightarrow>
            InvoiceDetailView_get rq' k d = (Inl AccessDenied, d) \<and>
            InvoiceUpdateView_post e rq' k f d = (Inl AccessDenied, d) \<and>
            InvoiceDeleteView_post rq' k d = (Inl AccessDenied, d) \<and>
            RecordManualPaymentView_post e rq' pf d = (Inl AccessDenied, d) \<and>
            ConfirmPaymentView_post e rq' j d = (Inl AccessDenied, d) \<and>
            DeletePaymentView_post rq' j d = (Inl AccessDenied, d))"
proof -
  note g = assms(5)
  have i404: "get_invoice_or_404 d (req_landlord rq) k = Inl Http404"
    by (rule foreign_invoice_404 [OF assms(1-4,6)])
  have v1: "InvoiceDetailView_get rq k d = (Inl Http404, d)"
    by (simp add: InvoiceDetailView_get_def g i404)
  have v2: "InvoiceUpdateView_post e rq k f d = (Inl Http404, d)"
    by (simp add: InvoiceUpdateView_post_def atomic_def g i404)
  have v3: "InvoiceDeleteView_post rq k d = (Inl Http404, d)"
    by (simp add: InvoiceDeleteView_post_def atomic_def g i404)
  have v4: "pf_invoice pf = Some k \<longrightarrow>
            RecordManualPaymentView_post e rq pf d = (Inl Http404, d) \<or>
            RecordManualPaymentView_post e rq pf d = (Inl MissingFields, d)"
    by (auto simp: RecordManualPaymentView_post_def atomic_def g i404 split: option.splits)
  have v5: "(\<forall>p \<in> set (payments d). pay_pk p = Some j \<longrightarrow> pay_invoice p = k) \<longrightarrow>
            PaymentDetailView_get rq j d = (Inl Http404, d) \<and>
            ConfirmPaymentView_post e rq j d = (Inl Http404, d) \<and>
            DeletePaymentView_post rq j d = (Inl Http404, d)"
  proof
    assume pays: "\<forall>p \<in> set (payments d). pay_pk p = Some j \<longrightarrow> pay_invoice p = k"
    have p404: "get_payment_or_404 d (req_landlord rq) j = Inl Http404"
      by (rule foreign_payment_404 [OF assms(1-4,6) pays])
    show "PaymentDetailView_get rq j d = (Inl Http404, d) \<and>
            ConfirmPaymentView_post e rq j d = (Inl Http404, d) \<and>
            DeletePaymentView_post rq j d = (Inl Http404, d)"
      by (simp add: PaymentDetailView_get_def ConfirmPaymentView_post_def
            DeletePaymentView_post_def atomic_def g p404)
  qed
  have v6: "InvoiceListView_get rq d = Inr (landlord_invoices d (req_landlord rq))"
    "PaymentListView_get rq d = Inr (landlord_payments d (req_landlord rq))"
    by (simp_all add: InvoiceListView_get_def PaymentListView_get_def g)
  have "\<not> invoice_owned_by d (req_landlord rq) iv"
  proof (cases "req_landlord rq")
    case None
    then show ?thesis by (simp add: no_owner_None)
  next
    case (Some a)
    with assms(6) have "a \<noteq> b" by simp
    with invoice_owner_unique [OF assms(1) _ assms(4), of a] Some show ?thesis by auto
  qed
  then have v7: "iv \<notin> set (landlord_invoices d (req_landlord rq))"
    by (simp add: landlord_invoices_def)
  have v8: "list_all (invoice_owned_by d (req_landlord rq)) (landlord_invoices d (req_landlord rq))"
    "list_all (payment_owned_by d (req_landlord rq)) (landlord_payments d (req_landlord rq))"
    by (simp_all add: landlord_invoices_def landlord_payments_def list_all_iff)
  have v9: "is_authenticated rq' \<and> \<not> is_landlord rq' \<longrightarrow>
            InvoiceDetailView_get rq' k d = (Inl AccessDenied, d) \<and>
            InvoiceUpdateView_post e rq' k f d = (Inl AccessDenied, d) \<and>
            InvoiceDeleteView_post rq' k d = (Inl AccessDenied, d) \<and>
            RecordManualPaymentView_post e rq' pf d = (Inl AccessDenied, d) \<and>
            ConfirmPaymentView_post e rq' j d = (Inl AccessDenied, d) \<and>
            DeletePaymentView_post rq' j d = (Inl AccessDenied, d)"
    by (simp add: InvoiceDetailView_get_def InvoiceUpdateView_post_def InvoiceDeleteView_post_def
          RecordManualPaymentView_post_def ConfirmPaymentView_post_def DeletePaymentView_post_def
          atomic_def landlord_gate_def)
  from v1 v2 v3 v4 v5 v6 v7 v8 v9 show ?thesis by blast
qed

text \<open>
  Claim C2 as stated fails: \<open>InitiateMpesaPaymentView.post\<close> reads the invoice by the
  primary key of the form alone. Asked for invoice 2, which belongs to landlord 2, in a
  request of landlord 1, it stores a pending payment against that invoice.
\<close>

theorem initiation_reaches_foreign_invoice:
  "invoice_owned_by ex_db (Some 2) ex_invoice_B \<and>
   \<not> invoice_owned_by ex_db (req_landlord landlord_A) ex_invoice_B \<and>
   payments ex_db = [] \<and>
   map pay_invoice
     (payments (snd (InitiateMpesaPaymentView_post ex_env landlord_A
        \<lparr>mf_invoice = Some 2, mf_phone = Some ''0722 222222'', mf_amount = Parsed 100\<rparr> ex_db)))
     = [2] \<and>
   map pay_status
     (payments (snd (InitiateMpesaPaymentView_post ex_env landlord_A
        \<lparr>mf_invoice = Some 2, mf_phone = Some ''0722 222222'', mf_amount = Parsed 100\<rparr> ex_db)))
     = [Pay_pending]"
  by (simp add: InitiateMpesaPaymentView_post_def sanitize_phone_def ex_defs view_defs)

theorem landlord_views_reject_foreign_invoice_witness:
  "InvoiceDetailView_get landlord_A 2 ex_pay_db = (Inl Http404, ex_pay_db) \<and>
   InvoiceDeleteView_post landlord_A 2 ex_pay_db = (Inl Http404, ex_pay_db) \<and>
   RecordManualPaymentView_post ex_env landlord_A
     \<lparr>pf_invoice = Some 2, pf_amount = Parsed 100, pf_method = Some Cash, pf_reference = [],
      pf_notes = []\<rparr> ex_pay_db = (Inl Http404, ex_pay_db) \<and>
   ConfirmPaymentView_post ex_env landlord_A 3 ex_pay_db = (Inl Http404, ex_pay_db) \<and>
   DeletePaymentView_post landlord_A 3 ex_pay_db = (Inl Http404, ex_pay_db) \<and>
   InvoiceListView_get landlord_A ex_pay_db = Inr [ex_invoice] \<and>
   fst (InvoiceDetailView_get landlord_B 2 ex_pay_db) = Inr ex_invoice_B"
proof -
  let ?pf = "\<lparr>pf_invoice = Some 2, pf_amount = Parsed 100, pf_method = Some Cash,
              pf_reference = [], pf_notes = []\<rparr>"
  let ?f = "\<lparr>f_lease = 2, f_billing_month = Some 100, f_due_date = Some 105,
             f_rent_amount = Some 1, f_water_amount = Some 0, f_garbage_amount = Some 0,
             f_other_charges = Some 0\<rparr>"
  have h1: "ownership_keys_ok ex_pay_db" by (simp add: ownership_keys_ok_def ex_defs)
  have h2: "ex_invoice_B \<in> set (invoices ex_pay_db)" by (simp add: ex_defs)
  have h3: "inv_pk ex_invoice_B = Some 2" by (simp add: ex_defs)
  have h4: "invoice_owned_by ex_pay_db (Some 2) ex_invoice_B"
    by (simp add: invoice_owned_by_def lease_owned_by_def ex_defs)
  have h5: "landlord_gate landlord_A = None" by (simp add: landlord_gate_def ex_defs)
  have h6: "req_landlord landlord_A \<noteq> Some 2" by (simp add: ex_defs)
  have h7: "\<forall>p \<in> set (payments ex_pay_db). pay_pk p = Some 3 \<longrightarrow> pay_invoice p = 2"
    by (simp add: ex_defs)
  have h8: "pf_invoice ?pf = Some 2" by simp
  have nm: "RecordManualPaymentView_post ex_env landlord_A ?pf ex_pay_db \<noteq> (Inl MissingFields, ex_pay_db)"
    by (simp add: RecordManualPaymentView_post_def atomic_def landlord_gate_def
          get_invoice_or_404_def invoice_owned_by_def lease_owned_by_def ex_defs)
  have li: "landlord_invoices ex_pay_db (req_landlord landlord_A) = [ex_invoice]"
    by (simp add: landlord_invoices_def invoice_owned_by_def lease_owned_by_def ex_defs)
  have own: "fst (InvoiceDetailView_get landlord_B 2 ex_pay_db) = Inr ex_invoice_B"
    by (simp add: InvoiceDetailView_get_def landlord_gate_def get_invoice_or_404_def
          invoice_owned_by_def lease_owned_by_def ex_defs)
  from landlord_views_reject_foreign_invoice [OF h1 h2 h3 h4 h5 h6, of ex_env ?f ?pf 3 landlord_B]
    h7 h8 nm li own
  show ?thesis by simp
qed

section \<open>Payment reconciler: what the manual payment view validates\<close>

text \<open>
  The checks of \<open>RecordManualPaymentView.post\<close> that come before its writes: an amount
  that is not positive or not a number ends the request with no change to the storage,
  and the amount recorded in the payment is the requested amount or, if that is larger,
  the invoice's balance, with the warning raised exactly then.
\<close>

lemma Payment_save_amount:
  "Payment_save e self d = (Inr p', d') \<Longrightarrow> amount p' = amount self"
  by (auto simp: Payment_save_def model_save_payment_def Let_def
           split: sum.splits prod.splits option.splits if_splits)

lemma manual_payment_rejects_non_positive:
  assumes "pf_amount f = Parsed a" and "a \<le> 0"
  shows "\<exists>err. RecordManualPaymentView_post e rq f d = (Inl err, d)"
  using assms
  by (auto simp: RecordManualPaymentView_post_def atomic_def split: option.splits sum.splits)

lemma manual_payment_rejects_malformed:
  assumes "pf_amount f = Malformed"
  shows "\<exists>err. RecordManualPaymentView_post e rq f d = (Inl err, d)"
  using assms
  by (auto simp: RecordManualPaymentView_post_def atomic_def split: option.splits sum.splits)

lemma manual_payment_amount_clamped:
  assumes "RecordManualPaymentView_post e rq f d = (Inr r, d')"
  shows "\<exists>a k iv. pf_amount f = Parsed a \<and> 0 < a \<and> pf_invoice f = Some k \<and>
           get_invoice_or_404 d (req_landlord rq) k = Inr iv \<and>
           amount (rec_payment r) = min a (balance iv) \<and>
           rec_warning r = (balance iv < a)"
  using assms
  by (auto simp: RecordManualPaymentView_post_def atomic_Inr Let_def min_def
           split: option.splits sum.splits decimal_input.splits if_splits prod.splits
           dest!: Payment_save_amount)

end
